theory Spec2Isabelle
  imports Complex_Main "HOL-Library.Sublist"
begin

section \<open>Data model\<close>

text \<open>
  The ORM entities of \<^verbatim>\<open>app/models\<close> as records, one field per column that the
  grading, term-grade, points and attendance code reads or writes. Fields carry a prefix
  because several tables share column names (\<^verbatim>\<open>student_id\<close>, \<^verbatim>\<open>id\<close>).
  Python \<^verbatim>\<open>float\<close> values are exact rationals here, \<^verbatim>\<open>int\<close> values are
  unbounded integers (the bound of an \<^verbatim>\<open>Integer\<close> column is checked where a value is
  written to the points tables), a nullable column is an \<open>option\<close>, and a
  \<^verbatim>\<open>date\<close> is its day ordinal. Free-text columns without logic (descriptions, notes) and the
  \<^verbatim>\<open>created_at\<close>/\<^verbatim>\<open>updated_at\<close> audit stamps are left out.
\<close>

type_synonym date = int

datatype UserRole = ADMIN | STUDENT

datatype AssignmentStatus =
  NOT_STARTED | IN_PROGRESS | SUBMITTED | GRADED | OVERDUE | EXCUSED_ASSIGNMENT

datatype AttendanceStatus = PRESENT | ABSENT | LATE | EXCUSED

text \<open>
  The exceptions: the HTTP errors the endpoints raise themselves, and the exceptions of the
  language and the libraries that pass through them (answered with status 500):
  \<^verbatim>\<open>ValidationError\<close> of the schema library, \<^verbatim>\<open>ArgumentError\<close>,
  \<^verbatim>\<open>DataError\<close> and \<^verbatim>\<open>PendingRollbackError\<close> of the ORM.
\<close>

datatype error =
  HTTPException int | AttributeError | TypeError | ValidationError
| ArgumentError | DataError | PendingRollbackError

text \<open>
  The release line of the ORM the application runs on. The default connection URL of
  \<^verbatim>\<open>app/core/config.py\<close> (\<^verbatim>\<open>postgresql+psycopg://\<close>) names a driver that only the
  2.x line has; with \<^verbatim>\<open>DATABASE_URL\<close> set to another driver the 1.x line serves as
  well. The two lines differ in one construct the code uses, the list form of
  \<^verbatim>\<open>case\<close> in \<^verbatim>\<open>update_term_grade\<close>.
\<close>

datatype orm_line = SQLAlchemy_1 | SQLAlchemy_2

record User =
  user_id :: int
  user_role :: UserRole

record AssignmentTemplate =
  tmpl_id :: int
  tmpl_subject_id :: int
  tmpl_max_points :: int

record StudentAssignment =
  sa_id :: int
  sa_template_id :: int
  sa_student_id :: int
  sa_assigned_date :: date
  sa_due_date :: "date option"
  sa_extended_due_date :: "date option"
  sa_status :: AssignmentStatus
  sa_started_date :: "date option"
  sa_completed_date :: "date option"
  sa_submitted_date :: "date option"
  sa_points_earned :: "rat option"
  sa_percentage_grade :: "rat option"
  sa_letter_grade :: "string option"
  sa_is_graded :: bool
  sa_graded_date :: "date option"
  sa_graded_by :: "int option"
  sa_teacher_feedback :: "string option"
  sa_custom_max_points :: "int option"

record Term =
  term_id :: int
  term_start_date :: date
  term_end_date :: date
  term_is_active :: bool

record TermSubject =
  ts_id :: int
  ts_term_id :: int
  ts_subject_id :: int

record StudentTermGrade =
  stg_student_id :: int
  stg_term_subject_id :: int
  current_points_earned :: "rat option"
  current_points_possible :: "rat option"
  current_percentage :: "rat option"
  current_letter_grade :: "string option"
  final_points_earned :: "rat option"
  final_points_possible :: "rat option"
  final_percentage :: "rat option"
  final_letter_grade :: "string option"
  is_finalized :: bool
  finalized_date :: "date option"
  finalized_by :: "int option"
  assignments_completed :: int
  assignments_total :: int
  last_calculated :: "int option"

record StudentPoints =
  sp_student_id :: int
  current_balance :: int
  total_earned :: int
  total_spent :: int

record PointTransaction =
  pt_student_id :: int
  pt_amount :: int
  pt_transaction_type :: string
  pt_source_id :: "int option"
  pt_admin_id :: "int option"

record SystemSettings =
  setting_key :: string
  setting_value :: string
  setting_is_active :: bool

record AttendanceRecord =
  ar_student_id :: int
  ar_date :: date
  ar_status :: AttendanceStatus

text \<open>
  The relational store: every table is the list of its rows. A value of this type is the
  stored state, that is what SQL queries see; objects that a request has changed in memory
  but not yet flushed are separate values passed next to it.
\<close>

record db =
  users :: "User list"
  assignment_templates :: "AssignmentTemplate list"
  student_assignments :: "StudentAssignment list"
  terms :: "Term list"
  term_subjects :: "TermSubject list"
  student_term_grades :: "StudentTermGrade list"
  student_points :: "StudentPoints list"
  point_transactions :: "PointTransaction list"
  system_settings :: "SystemSettings list"

section \<open>Attendance rate (\<^verbatim>\<open>app/utils/attendance.py\<close>)\<close>

text \<open>
  \<^verbatim>\<open>sum(1 for r in attendance_records if r.status == S)\<close> counts the records with
  status \<open>S\<close>.
\<close>

definition count_status :: "AttendanceStatus \<Rightarrow> AttendanceRecord list \<Rightarrow> int" where
  "count_status s attendance_records =
     int (length (filter (\<lambda>r. ar_status r = s) attendance_records))"

definition calculate_attendance_rate :: "AttendanceRecord list \<Rightarrow> int \<Rightarrow> rat" where
  "calculate_attendance_rate attendance_records required_days_of_instruction =
     (let present_days = count_status PRESENT attendance_records;
          late_days = count_status LATE attendance_records;
          excused_days = count_status EXCUSED attendance_records;
          acceptable_days = present_days + late_days + excused_days
      in if required_days_of_instruction > 0
         then of_int acceptable_days / of_int required_days_of_instruction * 100
         else 0)"

text \<open>Test data: \<open>n\<close> records of one status (student and date do not enter the rate).\<close>

definition records_of :: "AttendanceStatus \<Rightarrow> nat \<Rightarrow> AttendanceRecord list" where
  "records_of s n = replicate n \<lparr>ar_student_id = 1, ar_date = 0, ar_status = s\<rparr>"

section \<open>Points ledger (\<^verbatim>\<open>app/crud/points.py\<close>)\<close>

text \<open>
  \<^verbatim>\<open>str.lower\<close> on the ASCII letters, for the case-insensitive reading of the
  \<^verbatim>\<open>points_system_enabled\<close> flag.
\<close>

definition lower_char :: "char \<Rightarrow> char" where
  "lower_char c =
     (let n = (of_char c :: nat) in if 65 \<le> n \<and> n \<le> 90 then char_of (n + 32) else c)"

definition lower :: "string \<Rightarrow> string" where
  "lower s = map lower_char s"

definition get_system_setting :: "db \<Rightarrow> string \<Rightarrow> SystemSettings option" where
  "get_system_setting d key =
     find (\<lambda>s. setting_key s = key \<and> setting_is_active s) (system_settings d)"

definition is_points_system_enabled :: "db \<Rightarrow> bool" where
  "is_points_system_enabled d =
     (case get_system_setting d ''points_system_enabled'' of
        None \<Rightarrow> False
      | Some setting \<Rightarrow> lower (setting_value setting) = ''true'')"

text \<open>
  The columns of \<^verbatim>\<open>student_points\<close> and \<^verbatim>\<open>point_transactions\<close> are declared
  \<^verbatim>\<open>Integer\<close> (\<^verbatim>\<open>app/models/points.py\<close>). On PostgreSQL, the database of the default
  connection URL, such a column holds the values from \<open>-2147483648\<close> to \<open>2147483647\<close>; a
  statement that writes another value fails, the commit that flushes it raises, and the
  transaction is rolled back. (The ids in these tables are those of existing rows and lie
  within the range.)
\<close>

definition integer_min :: int where
  "integer_min = - 2147483648"

definition integer_max :: int where
  "integer_max = 2147483647"

definition in_integer_range :: "int \<Rightarrow> bool" where
  "in_integer_range n = (integer_min \<le> n \<and> n \<le> integer_max)"

definition transaction_fits :: "PointTransaction \<Rightarrow> bool" where
  "transaction_fits t = in_integer_range (pt_amount t)"

definition student_points_fit :: "StudentPoints \<Rightarrow> bool" where
  "student_points_fit sp =
     (in_integer_range (current_balance sp) \<and> in_integer_range (total_earned sp)
      \<and> in_integer_range (total_spent sp))"

text \<open>
  \<^verbatim>\<open>get_or_create_student_points\<close>: the first row of the student, or a new
  zero-balance row, added and committed. The commit flushes whatever the session holds,
  so it also writes the ledger rows the caller has added before (\<open>pending\<close>); when it
  raises, nothing is written. The result is the store, the rows still pending, and the
  balance object.
\<close>

definition get_or_create_student_points ::
  "db \<Rightarrow> PointTransaction list \<Rightarrow> int
     \<Rightarrow> error + db \<times> PointTransaction list \<times> StudentPoints" where
  "get_or_create_student_points d pending student_id =
     (case find (\<lambda>sp. sp_student_id sp = student_id) (student_points d) of
        Some sp \<Rightarrow> Inr (d, pending, sp)
      | None \<Rightarrow>
          (let sp = \<lparr>sp_student_id = student_id, current_balance = 0,
                     total_earned = 0, total_spent = 0\<rparr>
           in if list_all transaction_fits pending
              then Inr (d\<lparr>point_transactions := point_transactions d @ pending,
                         student_points := student_points d @ [sp]\<rparr>, [], sp)
              else Inl DataError))"

text \<open>
  Writing a changed ORM object back at commit: the row the object was loaded from (the
  first of the student) is replaced.
\<close>

fun store_student_points :: "StudentPoints \<Rightarrow> StudentPoints list \<Rightarrow> StudentPoints list" where
  "store_student_points sp [] = []"
| "store_student_points sp (r # rs) =
     (if sp_student_id r = sp_student_id sp then sp # rs
      else r # store_student_points sp rs)"

text \<open>
  The validated request object \<^verbatim>\<open>PointTransactionCreate\<close>: its \<^verbatim>\<open>amount\<close> field
  is declared \<^verbatim>\<open>int\<close>.
\<close>

record PointTransactionCreate =
  ptc_student_id :: int
  ptc_amount :: int
  ptc_transaction_type :: string
  ptc_source_id :: "int option"

text \<open>
  \<^verbatim>\<open>create_point_transaction\<close>: the ledger row is added to the session, the balance
  object is fetched (or created, with the commit described above), its balance and totals
  are updated in memory, and \<^verbatim>\<open>db.commit()\<close> writes what is pending. The result is the
  store as the function leaves it, with the ledger row or the exception: when the final
  commit raises, the store is as the last successful commit left it.
\<close>

definition create_point_transaction ::
  "db \<Rightarrow> PointTransactionCreate \<Rightarrow> int option \<Rightarrow> db \<times> (error + PointTransaction)" where
  "create_point_transaction d transaction admin_id =
     (let db_transaction =
            \<lparr>pt_student_id = ptc_student_id transaction,
             pt_amount = ptc_amount transaction,
             pt_transaction_type = ptc_transaction_type transaction,
             pt_source_id = ptc_source_id transaction,
             pt_admin_id = admin_id\<rparr>
      in case get_or_create_student_points d [db_transaction] (ptc_student_id transaction) of
           Inl e \<Rightarrow> (d, Inl e)
         | Inr (d1, pending, student_points0) \<Rightarrow>
             (let student_points1 = student_points0
                    \<lparr>current_balance := current_balance student_points0 + ptc_amount transaction\<rparr>;
                  student_points2 =
                    (if ptc_amount transaction > 0
                     then student_points1
                       \<lparr>total_earned := total_earned student_points1 + ptc_amount transaction\<rparr>
                     else student_points1
                       \<lparr>total_spent := total_spent student_points1 + \<bar>ptc_amount transaction\<bar>\<rparr>)
              in if list_all transaction_fits pending \<and> student_points_fit student_points2
                 then (d1\<lparr>point_transactions := point_transactions d1 @ pending,
                          student_points :=
                            store_student_points student_points2 (student_points d1)\<rparr>,
                       Inr db_transaction)
                 else (d1, Inl DataError)))"

record AdminPointAdjustment =
  apa_student_id :: int
  apa_amount :: int

definition admin_adjust_points ::
  "db \<Rightarrow> AdminPointAdjustment \<Rightarrow> int option \<Rightarrow> db \<times> (error + PointTransaction)" where
  "admin_adjust_points d adjustment admin_id =
     (let transaction_type =
            (if apa_amount adjustment > 0 then ''admin_award'' else ''admin_deduction'');
          transaction_data =
            \<lparr>ptc_student_id = apa_student_id adjustment,
             ptc_amount = apa_amount adjustment,
             ptc_transaction_type = transaction_type,
             ptc_source_id = None\<rparr>
      in create_point_transaction d transaction_data admin_id)"

text \<open>
  The endpoint \<^verbatim>\<open>POST /points/adjust\<close> (\<^verbatim>\<open>adjust_student_points\<close> in
  \<^verbatim>\<open>app/routers/points.py\<close>) for an authorised caller: status 403 when the points system
  is disabled, 404 when the student does not exist, then \<^verbatim>\<open>admin_adjust_points\<close>.
  The schema of the request declares \<^verbatim>\<open>amount: int\<close> with no bound.
\<close>

definition adjust_student_points ::
  "AdminPointAdjustment \<Rightarrow> int option \<Rightarrow> db \<Rightarrow> db \<times> (error + PointTransaction)" where
  "adjust_student_points adjustment admin_id d =
     (if \<not> is_points_system_enabled d then (d, Inl (HTTPException 403))
      else if find (\<lambda>u. user_id u = apa_student_id adjustment \<and> user_role u = STUDENT)
                (users d) = None
      then (d, Inl (HTTPException 404))
      else admin_adjust_points d adjustment admin_id)"

text \<open>
  \<^verbatim>\<open>award_assignment_points\<close> is called with the grade's \<^verbatim>\<open>points_earned\<close>, a
  \<^verbatim>\<open>float\<close>, and passes it to the \<^verbatim>\<open>int\<close> field \<^verbatim>\<open>amount\<close> of
  \<^verbatim>\<open>PointTransactionCreate\<close>. The schema library (the code base uses its version 2
  interface, \<^verbatim>\<open>field_validator\<close>) accepts a float for an integer field only when
  it has no fractional part and raises a validation error otherwise, before anything is
  added to the session.
\<close>

definition validate_int :: "rat \<Rightarrow> error + int" where
  "validate_int x = (if of_int \<lfloor>x\<rfloor> = x then Inr \<lfloor>x\<rfloor> else Inl ValidationError)"

definition award_assignment_points ::
  "db \<Rightarrow> int \<Rightarrow> int \<Rightarrow> rat \<Rightarrow> db \<times> (error + PointTransaction)" where
  "award_assignment_points d student_id assignment_id points_earned =
     (case validate_int points_earned of
        Inl e \<Rightarrow> (d, Inl e)
      | Inr amount \<Rightarrow>
          (let transaction_data =
                 \<lparr>ptc_student_id = student_id,
                  ptc_amount = amount,
                  ptc_transaction_type = ''assignment'',
                  ptc_source_id = Some assignment_id\<rparr>
           in create_point_transaction d transaction_data None))"

text \<open>
  A run of ledger operations; each leaves the store as its last successful commit wrote it,
  whether it returns or raises. \<open>op_amount\<close> is the amount an operation hands to
  \<^verbatim>\<open>create_point_transaction\<close>, if it gets that far.
\<close>

datatype point_op =
  Award int int rat
| Adjust AdminPointAdjustment "int option"

fun apply_point_op :: "db \<Rightarrow> point_op \<Rightarrow> db" where
  "apply_point_op d (Award student_id assignment_id points_earned) =
     fst (award_assignment_points d student_id assignment_id points_earned)"
| "apply_point_op d (Adjust adjustment admin_id) =
     fst (admin_adjust_points d adjustment admin_id)"

definition apply_point_ops :: "db \<Rightarrow> point_op list \<Rightarrow> db" where
  "apply_point_ops d ops = foldl apply_point_op d ops"

fun op_amount :: "point_op \<Rightarrow> int option" where
  "op_amount (Award student_id assignment_id points_earned) =
     (case validate_int points_earned of Inl e \<Rightarrow> None | Inr amount \<Rightarrow> Some amount)"
| "op_amount (Adjust adjustment admin_id) = Some (apa_amount adjustment)"

text \<open>The two sides of the balance invariant for one student.\<close>

definition ledger_sum :: "db \<Rightarrow> int \<Rightarrow> int" where
  "ledger_sum d student_id =
     sum_list (map pt_amount (filter (\<lambda>t. pt_student_id t = student_id) (point_transactions d)))"

definition balance_of :: "db \<Rightarrow> int \<Rightarrow> int option" where
  "balance_of d student_id =
     map_option current_balance
       (find (\<lambda>sp. sp_student_id sp = student_id) (student_points d))"

text \<open>
  The invariant for one student: the balance row, when there is one, holds the sum of the
  student's ledger rows, and without a balance row the student has no ledger row.
\<close>

definition ledger_inv :: "db \<Rightarrow> int \<Rightarrow> bool" where
  "ledger_inv d k =
     (case balance_of d k of
        None \<Rightarrow> filter (\<lambda>t. pt_student_id t = k) (point_transactions d) = []
      | Some b \<Rightarrow> b = ledger_sum d k)"

section \<open>Grades of one assignment (\<^verbatim>\<open>app/models/assignment.py\<close>)\<close>

text \<open>
  The relationship \<^verbatim>\<open>self.template\<close> is the template row the foreign key points to,
  or \<^verbatim>\<open>None\<close>. The property \<^verbatim>\<open>max_points\<close> is
  \<^verbatim>\<open>self.custom_max_points or self.template.max_points\<close>: a custom value that is
  \<^verbatim>\<open>None\<close> or \<open>0\<close> falls through to the template, and reading the attribute of
  a missing template raises.
\<close>

definition template_of :: "db \<Rightarrow> StudentAssignment \<Rightarrow> AssignmentTemplate option" where
  "template_of d a = find (\<lambda>t. tmpl_id t = sa_template_id a) (assignment_templates d)"

definition template_max_points :: "db \<Rightarrow> StudentAssignment \<Rightarrow> error + int" where
  "template_max_points d a =
     (case template_of d a of
        None \<Rightarrow> Inl AttributeError
      | Some t \<Rightarrow> Inr (tmpl_max_points t))"

definition max_points :: "db \<Rightarrow> StudentAssignment \<Rightarrow> error + int" where
  "max_points d a =
     (case sa_custom_max_points a of
        Some c \<Rightarrow> if c \<noteq> 0 then Inr c else template_max_points d a
      | None \<Rightarrow> template_max_points d a)"

text \<open>
  \<^verbatim>\<open>calculate_percentage_grade\<close> returns the object (changed or not) and the value
  of its \<^verbatim>\<open>percentage_grade\<close> attribute.
\<close>

definition calculate_percentage_grade ::
  "db \<Rightarrow> StudentAssignment \<Rightarrow> error + StudentAssignment \<times> rat option" where
  "calculate_percentage_grade d a =
     (case sa_points_earned a of
        None \<Rightarrow> Inr (a, sa_percentage_grade a)
      | Some p \<Rightarrow>
          (case max_points d a of
             Inl e \<Rightarrow> Inl e
           | Inr m \<Rightarrow>
               if m > 0
               then Inr (a\<lparr>sa_percentage_grade := Some (p / of_int m * 100)\<rparr>,
                         Some (p / of_int m * 100))
               else Inr (a, sa_percentage_grade a)))"

definition update_status :: "date \<Rightarrow> StudentAssignment \<Rightarrow> StudentAssignment" where
  "update_status today a =
     (let effective_due_date =
            (case sa_extended_due_date a of Some x \<Rightarrow> Some x | None \<Rightarrow> sa_due_date a)
      in if sa_is_graded a then a\<lparr>sa_status := GRADED\<rparr>
         else if sa_submitted_date a \<noteq> None then a\<lparr>sa_status := SUBMITTED\<rparr>
         else if sa_started_date a \<noteq> None then a\<lparr>sa_status := IN_PROGRESS\<rparr>
         else if (case effective_due_date of Some due \<Rightarrow> today > due | None \<Rightarrow> False)
              then a\<lparr>sa_status := OVERDUE\<rparr>
         else a\<lparr>sa_status := NOT_STARTED\<rparr>)"

section \<open>Letter grades\<close>

text \<open>\<^verbatim>\<open>TermGradingService._calculate_letter_grade\<close>.\<close>

definition calculate_letter_grade :: "rat option \<Rightarrow> string option" where
  "calculate_letter_grade percentage =
     (case percentage of
        None \<Rightarrow> None
      | Some p \<Rightarrow>
          Some (if p \<ge> 97 then ''A+''
                else if p \<ge> 93 then ''A''
                else if p \<ge> 90 then ''A-''
                else if p \<ge> 87 then ''B+''
                else if p \<ge> 83 then ''B''
                else if p \<ge> 80 then ''B-''
                else if p \<ge> 77 then ''C+''
                else if p \<ge> 73 then ''C''
                else if p \<ge> 70 then ''C-''
                else if p \<ge> 67 then ''D+''
                else if p \<ge> 63 then ''D''
                else if p \<ge> 60 then ''D-''
                else ''F''))"

text \<open>
  The \<^verbatim>\<open>if\<close>/\<^verbatim>\<open>elif\<close> chain inside the endpoint
  \<^verbatim>\<open>grade_student_assignment\<close> (\<^verbatim>\<open>app/routers/assignments.py\<close>), used when the
  grader gives no letter.
\<close>

definition endpoint_letter_grade :: "rat \<Rightarrow> string" where
  "endpoint_letter_grade percentage =
     (if percentage \<ge> 97 then ''A+''
      else if percentage \<ge> 93 then ''A''
      else if percentage \<ge> 90 then ''A-''
      else if percentage \<ge> 87 then ''B+''
      else if percentage \<ge> 83 then ''B''
      else if percentage \<ge> 80 then ''B-''
      else if percentage \<ge> 77 then ''C+''
      else if percentage \<ge> 73 then ''C''
      else if percentage \<ge> 70 then ''C-''
      else if percentage \<ge> 67 then ''D+''
      else if percentage \<ge> 65 then ''D''
      else ''F'')"

section \<open>Term grades (\<^verbatim>\<open>app/models/term.py\<close>, \<^verbatim>\<open>app/models/assignment.py\<close>)\<close>

text \<open>
  A new \<^verbatim>\<open>StudentTermGrade(student_id, term_subject_id)\<close> as it is stored: the
  column defaults fill the totals, the counts and the finalized flag, every other column
  is null.
\<close>

definition new_StudentTermGrade :: "int \<Rightarrow> int \<Rightarrow> StudentTermGrade" where
  "new_StudentTermGrade student_id term_subject_id =
     \<lparr>stg_student_id = student_id, stg_term_subject_id = term_subject_id,
      current_points_earned = Some 0, current_points_possible = Some 0,
      current_percentage = None, current_letter_grade = None,
      final_points_earned = None, final_points_possible = None,
      final_percentage = None, final_letter_grade = None,
      is_finalized = False, finalized_date = None, finalized_by = None,
      assignments_completed = 0, assignments_total = 0, last_calculated = None\<rparr>"

definition calculate_current_grade :: "int \<Rightarrow> StudentTermGrade \<Rightarrow> error + StudentTermGrade" where
  "calculate_current_grade now g =
     (case current_points_possible g of
        None \<Rightarrow> Inl TypeError
      | Some possible \<Rightarrow>
          if possible > 0
          then (case current_points_earned g of
                  None \<Rightarrow> Inl TypeError
                | Some earned \<Rightarrow>
                    Inr (g\<lparr>current_percentage := Some (earned / possible * 100),
                           last_calculated := Some now\<rparr>))
          else Inr (g\<lparr>current_percentage := None, last_calculated := Some now\<rparr>))"

definition finalize_grade :: "int \<Rightarrow> date \<Rightarrow> StudentTermGrade \<Rightarrow> StudentTermGrade" where
  "finalize_grade finalizer_id today g =
     g\<lparr>final_points_earned := current_points_earned g,
       final_points_possible := current_points_possible g,
       final_percentage := current_percentage g,
       final_letter_grade := current_letter_grade g,
       is_finalized := True,
       finalized_date := Some today,
       finalized_by := Some finalizer_id\<rparr>"

text \<open>SQL \<^verbatim>\<open>SUM\<close> skips nulls and is null when nothing is left to add.\<close>

definition sql_sum :: "rat option list \<Rightarrow> rat option" where
  "sql_sum vs =
     (let nonnull = concat (map (\<lambda>v. case v of None \<Rightarrow> [] | Some x \<Rightarrow> [x]) vs)
      in if nonnull = [] then None else Some (sum_list nonnull))"

text \<open>
  The rows both aggregate queries of \<^verbatim>\<open>update_term_grade\<close> range over: stored
  assignments of the student, joined with their template, of the subject, assigned within
  the term. The second query adds the filter \<^verbatim>\<open>is_graded\<close>.
\<close>

definition term_scope :: "db \<Rightarrow> int \<Rightarrow> int \<Rightarrow> Term \<Rightarrow> StudentAssignment list" where
  "term_scope d student_id subject_id active_term =
     filter (\<lambda>r. sa_student_id r = student_id
                \<and> (case template_of d r of
                      None \<Rightarrow> False
                    | Some t \<Rightarrow> tmpl_subject_id t = subject_id)
                \<and> sa_assigned_date r \<ge> term_start_date active_term
                \<and> sa_assigned_date r \<le> term_end_date active_term)
       (student_assignments d)"

text \<open>\<^verbatim>\<open>coalesce(custom_max_points, AssignmentTemplate.max_points)\<close> on a joined row.\<close>

definition coalesce_max_points :: "db \<Rightarrow> StudentAssignment \<Rightarrow> int" where
  "coalesce_max_points d r =
     (case sa_custom_max_points r of
        Some c \<Rightarrow> c
      | None \<Rightarrow> (case template_of d r of Some t \<Rightarrow> tmpl_max_points t | None \<Rightarrow> 0))"

text \<open>
  Commit: a changed or new \<^verbatim>\<open>StudentTermGrade\<close> replaces the row it was loaded from
  (the first with its student and term subject) or is appended; a changed assignment
  replaces the row it was loaded from (the first with its id).
\<close>

fun store_term_grade :: "StudentTermGrade \<Rightarrow> StudentTermGrade list \<Rightarrow> StudentTermGrade list" where
  "store_term_grade g [] = [g]"
| "store_term_grade g (r # rs) =
     (if stg_student_id r = stg_student_id g \<and> stg_term_subject_id r = stg_term_subject_id g
      then g # rs
      else r # store_term_grade g rs)"

fun store_assignment :: "StudentAssignment \<Rightarrow> StudentAssignment list \<Rightarrow> StudentAssignment list" where
  "store_assignment a [] = []"
| "store_assignment a (r # rs) =
     (if sa_id r = sa_id a then a # rs else r # store_assignment a rs)"

text \<open>
  \<^verbatim>\<open>StudentAssignment.update_term_grade(session)\<close>. The session factory in
  \<^verbatim>\<open>app/core/database.py\<close> is built with \<^verbatim>\<open>autoflush=False\<close>, so the queries
  run on the stored rows \<open>d\<close>, while \<open>self\<close> is the object in memory with the
  changes the caller has made to it; the final \<^verbatim>\<open>session.commit()\<close> writes
  \<open>self\<close> and the term grade. The early returns leave the store as it is. The
  aggregate \<^verbatim>\<open>sum(case([(is_graded, 1)], else_=0)) or 0\<close> counts the graded rows, and
  \<^verbatim>\<open>sum(coalesce(...)) or 0\<close> over the graded rows is their sum, \<open>0\<close> without rows.
  The list form \<^verbatim>\<open>case([(is_graded, 1)], else_=0)\<close> is what the 1.x line of the ORM
  accepts; the 2.x line raises \<^verbatim>\<open>ArgumentError\<close> when the expression is built, that
  is once the term-subject link has been found and the term-grade object fetched or
  created in memory, before the aggregate query runs and before anything is committed.
\<close>

definition update_term_grade ::
  "orm_line \<Rightarrow> int \<Rightarrow> StudentAssignment \<Rightarrow> db \<Rightarrow> error + db" where
  "update_term_grade orm now self d =
     (if \<not> sa_is_graded self \<or> sa_points_earned self = None \<or> sa_points_earned self = Some 0
      then Inr d
      else
        (case find term_is_active (terms d) of
           None \<Rightarrow> Inr d
         | Some active_term \<Rightarrow>
             (case template_of d self of
                None \<Rightarrow> Inl AttributeError
              | Some self_template \<Rightarrow>
                  (case find (\<lambda>ts. ts_term_id ts = term_id active_term
                                    \<and> ts_subject_id ts = tmpl_subject_id self_template)
                          (term_subjects d) of
                     None \<Rightarrow> Inr d
                   | Some term_subject \<Rightarrow>
                       if orm = SQLAlchemy_2 then Inl ArgumentError
                       else
                       (let student_term_grade =
                              (case find (\<lambda>g. stg_student_id g = sa_student_id self
                                               \<and> stg_term_subject_id g = ts_id term_subject)
                                      (student_term_grades d) of
                                 Some g \<Rightarrow> g
                               | None \<Rightarrow>
                                   new_StudentTermGrade (sa_student_id self) (ts_id term_subject));
                            rows = term_scope d (sa_student_id self)
                                     (tmpl_subject_id self_template) active_term;
                            total_earned = sql_sum (map sa_points_earned rows);
                            total_assignments = int (length rows);
                            graded_count =
                              sum_list (map (\<lambda>r. if sa_is_graded r then 1 else 0) rows)
                        in case total_earned of
                             None \<Rightarrow>
                               Inr (d\<lparr>student_assignments :=
                                        store_assignment self (student_assignments d),
                                      student_term_grades :=
                                        store_term_grade student_term_grade
                                          (student_term_grades d)\<rparr>)
                           | Some earned \<Rightarrow>
                               (let total_possible =
                                      sum_list (map (coalesce_max_points d)
                                        (filter sa_is_graded rows))
                                in case calculate_current_grade now
                                          (student_term_grade
                                            \<lparr>current_points_earned := Some earned,
                                             current_points_possible :=
                                               Some (of_int total_possible),
                                             assignments_completed := graded_count,
                                             assignments_total := total_assignments\<rparr>) of
                                     Inl e \<Rightarrow> Inl e
                                   | Inr g \<Rightarrow>
                                       Inr (d\<lparr>student_assignments :=
                                                store_assignment self (student_assignments d),
                                              student_term_grades :=
                                                store_term_grade g
                                                  (student_term_grades d)\<rparr>)))))))"

section \<open>The grading endpoints (\<^verbatim>\<open>app/routers/assignments.py\<close>,
  \<^verbatim>\<open>app/routers/integrations.py\<close>)\<close>

text \<open>
  The request body \<^verbatim>\<open>StudentAssignmentGrade\<close>; its schema requires
  \<^verbatim>\<open>points_earned >= 0\<close>, which the framework checks before the handler runs
  (status 422).
\<close>

record StudentAssignmentGrade =
  gd_points_earned :: rat
  gd_teacher_feedback :: "string option"
  gd_letter_grade :: "string option"

text \<open>Python truthiness of an optional string: \<^verbatim>\<open>None\<close> and \<^verbatim>\<open>""\<close> are false.\<close>

definition truthy_str :: "string option \<Rightarrow> bool" where
  "truthy_str s = (case s of None \<Rightarrow> False | Some x \<Rightarrow> x \<noteq> [])"

text \<open>
  The award step of the endpoint: the \<^verbatim>\<open>try\<close> block around
  \<^verbatim>\<open>award_assignment_points\<close>, whose \<^verbatim>\<open>except Exception\<close> logs and goes on,
  without a rollback. A validation error is raised before the session is used, and the
  handler logs it. When a commit inside \<^verbatim>\<open>award_assignment_points\<close> has raised, the
  session has rolled its transaction back, has expired its objects, and refuses every
  further statement with \<^verbatim>\<open>PendingRollbackError\<close> until \<^verbatim>\<open>rollback()\<close> is called
  on it; the log call of the handler reads \<^verbatim>\<open>assignment.id\<close>, which has to be loaded
  again, so the handler raises in its turn. The result is the store after the step and
  the exception that leaves the step, if there is one.
\<close>

definition award_step ::
  "db \<Rightarrow> StudentAssignment \<Rightarrow> StudentAssignmentGrade \<Rightarrow> db \<times> error option" where
  "award_step d assignment grade_data =
     (if is_points_system_enabled d
      then (let (d', awarded) =
                  award_assignment_points d (sa_student_id assignment) (sa_id assignment)
                    (gd_points_earned grade_data)
            in (d', case awarded of
                      Inr t \<Rightarrow> None
                    | Inl e \<Rightarrow> if e = DataError then Some PendingRollbackError else None))
      else (d, None))"

text \<open>
  \<^verbatim>\<open>grade_student_assignment\<close>. The result is the store as the request leaves it and
  the graded assignment of the response, or the exception. Up to the commit of the grade
  an exception leaves the store as it was; an exception of the award step comes after
  that commit.
\<close>

definition grade_student_assignment ::
  "orm_line \<Rightarrow> date \<Rightarrow> int \<Rightarrow> int \<Rightarrow> StudentAssignmentGrade \<Rightarrow> User \<Rightarrow> db
     \<Rightarrow> db \<times> (error + StudentAssignment)" where
  "grade_student_assignment orm today now assignment_id grade_data current_user d =
     (if gd_points_earned grade_data < 0 then (d, Inl (HTTPException 422))
      else if user_role current_user \<noteq> ADMIN then (d, Inl (HTTPException 403))
      else
        (case find (\<lambda>a. sa_id a = assignment_id) (student_assignments d) of
           None \<Rightarrow> (d, Inl (HTTPException 404))
         | Some assignment \<Rightarrow>
             if find (\<lambda>u. user_id u = sa_student_id assignment \<and> user_role u = STUDENT)
                  (users d) = None
             then (d, Inl (HTTPException 404))
             else
               (case max_points d assignment of
                  Inl e \<Rightarrow> (d, Inl e)
                | Inr max_pts \<Rightarrow>
                    if gd_points_earned grade_data > of_int max_pts
                    then (d, Inl (HTTPException 400))
                    else
                      (case calculate_percentage_grade d
                              (assignment
                                \<lparr>sa_points_earned := Some (gd_points_earned grade_data),
                                 sa_teacher_feedback := gd_teacher_feedback grade_data,
                                 sa_letter_grade := gd_letter_grade grade_data,
                                 sa_is_graded := True,
                                 sa_graded_date := Some today,
                                 sa_graded_by := Some (user_id current_user)\<rparr>) of
                         Inl e \<Rightarrow> (d, Inl e)
                       | Inr (a, percentage) \<Rightarrow>
                           (let a1 =
                                  (case percentage of
                                     Some pct \<Rightarrow>
                                       if \<not> truthy_str (gd_letter_grade grade_data)
                                       then a\<lparr>sa_letter_grade :=
                                                Some (endpoint_letter_grade pct)\<rparr>
                                       else a\<lparr>sa_letter_grade := gd_letter_grade grade_data\<rparr>
                                   | None \<Rightarrow>
                                       a\<lparr>sa_letter_grade := gd_letter_grade grade_data\<rparr>);
                                a2 = update_status today a1
                            in case update_term_grade orm now a2 d of
                                 Inl e \<Rightarrow> (d, Inl e)
                               | Inr d1 \<Rightarrow>
                                   (let d2 = d1\<lparr>student_assignments :=
                                               store_assignment a2 (student_assignments d1)\<rparr>;
                                        (d3, failure) = award_step d2 a2 grade_data
                                    in (d3, case failure of
                                              None \<Rightarrow> Inr a2
                                            | Some e \<Rightarrow> Inl e)))))))"

text \<open>
  \<^verbatim>\<open>grade_assignment_via_api\<close> (\<^verbatim>\<open>app/routers/integrations.py\<close>), the grading
  endpoint for API keys. Its dependency \<^verbatim>\<open>require_permission("assignments:grade")\<close>
  answers 403 for a key without the permission; the handler checks neither a role nor the
  student, sets \<^verbatim>\<open>graded_by\<close> to \<^verbatim>\<open>None\<close>, and is otherwise the code of
  \<^verbatim>\<open>grade_student_assignment\<close>. Its response is a dictionary of the fields of the
  assignment, here the assignment.
\<close>

definition grade_assignment_via_api ::
  "orm_line \<Rightarrow> date \<Rightarrow> int \<Rightarrow> int \<Rightarrow> StudentAssignmentGrade \<Rightarrow> bool \<Rightarrow> db
     \<Rightarrow> db \<times> (error + StudentAssignment)" where
  "grade_assignment_via_api orm today now assignment_id grade_data has_permission d =
     (if \<not> has_permission then (d, Inl (HTTPException 403))
      else if gd_points_earned grade_data < 0 then (d, Inl (HTTPException 422))
      else
        (case find (\<lambda>a. sa_id a = assignment_id) (student_assignments d) of
           None \<Rightarrow> (d, Inl (HTTPException 404))
         | Some assignment \<Rightarrow>
             (case max_points d assignment of
                Inl e \<Rightarrow> (d, Inl e)
              | Inr max_pts \<Rightarrow>
                  if gd_points_earned grade_data > of_int max_pts
                  then (d, Inl (HTTPException 400))
                  else
                    (case calculate_percentage_grade d
                            (assignment
                              \<lparr>sa_points_earned := Some (gd_points_earned grade_data),
                               sa_teacher_feedback := gd_teacher_feedback grade_data,
                               sa_letter_grade := gd_letter_grade grade_data,
                               sa_is_graded := True,
                               sa_graded_date := Some today,
                               sa_graded_by := None\<rparr>) of
                       Inl e \<Rightarrow> (d, Inl e)
                     | Inr (a, percentage) \<Rightarrow>
                         (let a1 =
                                (case percentage of
                                   Some pct \<Rightarrow>
                                     if \<not> truthy_str (gd_letter_grade grade_data)
                                     then a\<lparr>sa_letter_grade :=
                                              Some (endpoint_letter_grade pct)\<rparr>
                                     else a\<lparr>sa_letter_grade := gd_letter_grade grade_data\<rparr>
                                 | None \<Rightarrow>
                                     a\<lparr>sa_letter_grade := gd_letter_grade grade_data\<rparr>);
                              a2 = update_status today a1
                          in case update_term_grade orm now a2 d of
                               Inl e \<Rightarrow> (d, Inl e)
                             | Inr d1 \<Rightarrow>
                                 (let d2 = d1\<lparr>student_assignments :=
                                             store_assignment a2 (student_assignments d1)\<rparr>;
                                      (d3, failure) = award_step d2 a2 grade_data
                                  in (d3, case failure of
                                            None \<Rightarrow> Inr a2
                                          | Some e \<Rightarrow> Inl e)))))))"

text \<open>
  Runs of grading requests, each leaving the store as its last commit wrote it: requests
  to \<^verbatim>\<open>grade_student_assignment\<close>, and grading operations of either endpoint.
\<close>

record grading_request =
  gr_today :: date
  gr_now :: int
  gr_assignment_id :: int
  gr_grade_data :: StudentAssignmentGrade
  gr_current_user :: User

definition apply_grading :: "orm_line \<Rightarrow> db \<Rightarrow> grading_request \<Rightarrow> db" where
  "apply_grading orm d r =
     fst (grade_student_assignment orm (gr_today r) (gr_now r) (gr_assignment_id r)
            (gr_grade_data r) (gr_current_user r) d)"

definition apply_gradings :: "orm_line \<Rightarrow> db \<Rightarrow> grading_request list \<Rightarrow> db" where
  "apply_gradings orm d rs = foldl (apply_grading orm) d rs"

record api_grading_request =
  ag_today :: date
  ag_now :: int
  ag_assignment_id :: int
  ag_grade_data :: StudentAssignmentGrade
  ag_has_permission :: bool

datatype grading_operation =
  Grade_student_assignment grading_request
| Grade_assignment_via_api api_grading_request

fun apply_grading_operation :: "orm_line \<Rightarrow> db \<Rightarrow> grading_operation \<Rightarrow> db" where
  "apply_grading_operation orm d (Grade_student_assignment r) = apply_grading orm d r"
| "apply_grading_operation orm d (Grade_assignment_via_api r) =
     fst (grade_assignment_via_api orm (ag_today r) (ag_now r) (ag_assignment_id r)
            (ag_grade_data r) (ag_has_permission r) d)"

definition apply_grading_operations ::
  "orm_line \<Rightarrow> db \<Rightarrow> grading_operation list \<Rightarrow> db" where
  "apply_grading_operations orm d ops = foldl (apply_grading_operation orm) d ops"

section \<open>Term grading service (\<^verbatim>\<open>app/services/term_grading.py\<close>)\<close>

text \<open>
  \<^verbatim>\<open>auto_link_subjects_to_terms\<close>. For every selected term: the stored assignments
  completed within it (joined with their template), the set of their subjects, and a new
  \<^verbatim>\<open>TermSubject\<close> for each subject the stored links miss. The new rows are pending
  until the single commit at the end, where each gets the next free id. Python iterates the
  subject set in an order of its own; here it is the order of first occurrence.
\<close>

definition completed_in_term :: "db \<Rightarrow> Term \<Rightarrow> StudentAssignment list" where
  "completed_in_term d the_term =
     filter (\<lambda>a. template_of d a \<noteq> None
                \<and> (case sa_completed_date a of
                      None \<Rightarrow> False
                    | Some c \<Rightarrow> c \<ge> term_start_date the_term \<and> c \<le> term_end_date the_term))
       (student_assignments d)"

definition subject_ids_of :: "db \<Rightarrow> StudentAssignment list \<Rightarrow> int list" where
  "subject_ids_of d completed_assignments =
     remdups (concat (map (\<lambda>a. case template_of d a of
                                  None \<Rightarrow> []
                                | Some t \<Rightarrow> if tmpl_subject_id t \<noteq> 0
                                            then [tmpl_subject_id t] else [])
                       completed_assignments))"

definition next_term_subject_id :: "TermSubject list \<Rightarrow> int" where
  "next_term_subject_id rows = fold max (map ts_id rows) 0 + 1"

fun insert_term_subjects :: "(int \<times> int) list \<Rightarrow> TermSubject list \<Rightarrow> TermSubject list" where
  "insert_term_subjects [] rows = rows"
| "insert_term_subjects ((t, s) # pending) rows =
     insert_term_subjects pending
       (rows @ [\<lparr>ts_id = next_term_subject_id rows, ts_term_id = t, ts_subject_id = s\<rparr>])"

definition link_term ::
  "db \<Rightarrow> (int \<times> int) list \<times> int \<times> int \<Rightarrow> Term \<Rightarrow> (int \<times> int) list \<times> int \<times> int" where
  "link_term d acc the_term =
     (case acc of (pending, subjects_linked, term_subjects_created) \<Rightarrow>
        (let subject_ids = subject_ids_of d (completed_in_term d the_term);
             missing =
               filter (\<lambda>s. find (\<lambda>l. ts_term_id l = term_id the_term \<and> ts_subject_id l = s)
                             (term_subjects d) = None)
                 subject_ids
         in (pending @ map (\<lambda>s. (term_id the_term, s)) missing,
             subjects_linked + int (length subject_ids),
             term_subjects_created + int (length missing))))"

definition auto_link_subjects_to_terms :: "db \<Rightarrow> int option \<Rightarrow> db \<times> int \<times> int" where
  "auto_link_subjects_to_terms d tid =
     (let selected =
            (case tid of
               Some t \<Rightarrow> if t \<noteq> 0 then filter (\<lambda>x. term_id x = t) (terms d) else terms d
             | None \<Rightarrow> terms d)
      in case foldl (link_term d) ([], 0, 0) selected of
           (pending, subjects_linked, term_subjects_created) \<Rightarrow>
             (d\<lparr>term_subjects := insert_term_subjects pending (term_subjects d)\<rparr>,
              subjects_linked, term_subjects_created))"

text \<open>
  \<^verbatim>\<open>calculate_student_term_grades\<close>. The graded assignments of one student and one
  term subject are selected by \<^verbatim>\<open>completed_date\<close>; \<^verbatim>\<open>a.max_points\<close> cannot
  raise on them, since the join has found their template. The loop writes one
  \<^verbatim>\<open>StudentTermGrade\<close> per student and term subject, hence (ids being primary keys)
  never the same one twice; all of them are committed at the end.
\<close>

definition graded_assignments_of ::
  "db \<Rightarrow> Term \<Rightarrow> int \<Rightarrow> int \<Rightarrow> StudentAssignment list" where
  "graded_assignments_of d the_term student_id subject_id =
     filter (\<lambda>a. sa_student_id a = student_id
                \<and> (case template_of d a of
                      None \<Rightarrow> False
                    | Some t \<Rightarrow> tmpl_subject_id t = subject_id)
                \<and> sa_is_graded a
                \<and> (case sa_completed_date a of
                      None \<Rightarrow> False
                    | Some c \<Rightarrow> c \<ge> term_start_date the_term \<and> c \<le> term_end_date the_term))
       (student_assignments d)"

definition grade_term_subject ::
  "int \<Rightarrow> db \<Rightarrow> Term \<Rightarrow> User \<Rightarrow> StudentTermGrade list \<times> int \<Rightarrow> TermSubject
     \<Rightarrow> StudentTermGrade list \<times> int" where
  "grade_term_subject now d the_term student acc term_subject =
     (case acc of (grades, grades_calculated) \<Rightarrow>
        (let graded_assignments =
               graded_assignments_of d the_term (user_id student) (ts_subject_id term_subject)
         in if graded_assignments = [] then (grades, grades_calculated)
            else
              (let total_points_earned =
                     sum_list (map (\<lambda>a. case sa_points_earned a of None \<Rightarrow> 0 | Some p \<Rightarrow> p)
                                 graded_assignments);
                   total_points_possible =
                     sum_list (map (\<lambda>a. case max_points d a of Inr m \<Rightarrow> m | Inl e \<Rightarrow> 0)
                                 graded_assignments);
                   total_assignments = int (length graded_assignments);
                   current_pct =
                     (if total_points_possible > 0
                      then Some (total_points_earned / of_int total_points_possible * 100)
                      else None);
                   letter_grade = calculate_letter_grade current_pct;
                   student_term_grade =
                     (case find (\<lambda>g. stg_student_id g = user_id student
                                      \<and> stg_term_subject_id g = ts_id term_subject) grades of
                        Some g \<Rightarrow> g
                      | None \<Rightarrow> new_StudentTermGrade (user_id student) (ts_id term_subject))
               in (store_term_grade
                     (student_term_grade
                        \<lparr>current_points_earned := Some total_points_earned,
                         current_points_possible := Some (of_int total_points_possible),
                         current_percentage := current_pct,
                         current_letter_grade := letter_grade,
                         assignments_completed := total_assignments,
                         assignments_total := total_assignments,
                         last_calculated := Some now\<rparr>)
                     grades,
                   grades_calculated + 1))))"

definition grade_student ::
  "int \<Rightarrow> db \<Rightarrow> Term \<Rightarrow> TermSubject list \<Rightarrow> StudentTermGrade list \<times> int \<times> int \<Rightarrow> User
     \<Rightarrow> StudentTermGrade list \<times> int \<times> int" where
  "grade_student now d the_term subjects acc student =
     (case acc of (grades, grades_calculated, students_processed) \<Rightarrow>
        (case foldl (grade_term_subject now d the_term student) (grades, grades_calculated)
                subjects of
           (grades', grades_calculated') \<Rightarrow>
             (grades', grades_calculated', students_processed + 1)))"

datatype grade_calculation = Term_not_found | Calculated int int

definition calculate_student_term_grades ::
  "int \<Rightarrow> int \<Rightarrow> int option \<Rightarrow> db \<Rightarrow> db \<times> grade_calculation" where
  "calculate_student_term_grades now tid student_id d =
     (let d1 = fst (auto_link_subjects_to_terms d (Some tid))
      in case find (\<lambda>x. term_id x = tid) (terms d1) of
           None \<Rightarrow> (d1, Term_not_found)
         | Some the_term \<Rightarrow>
             (let subjects = filter (\<lambda>l. ts_term_id l = tid) (term_subjects d1);
                  students =
                    filter (\<lambda>u. user_role u = STUDENT
                               \<and> (case student_id of
                                     Some s \<Rightarrow> s \<noteq> 0 \<longrightarrow> user_id u = s
                                   | None \<Rightarrow> True))
                      (users d1)
              in case foldl (grade_student now d1 the_term subjects)
                        (student_term_grades d1, 0, 0) students of
                   (grades, grades_calculated, students_processed) \<Rightarrow>
                     (d1\<lparr>student_term_grades := grades\<rparr>,
                      Calculated grades_calculated students_processed)))"

section \<open>The properties in terms of the model\<close>

text \<open>The columns a finalization freezes, and the columns a recalculation rewrites.\<close>

definition final_fields ::
  "StudentTermGrade \<Rightarrow>
     rat option \<times> rat option \<times> rat option \<times> string option \<times> bool \<times> date option \<times> int option" where
  "final_fields g =
     (final_points_earned g, final_points_possible g, final_percentage g,
      final_letter_grade g, is_finalized g, finalized_date g, finalized_by g)"

definition current_fields ::
  "StudentTermGrade \<Rightarrow> rat option \<times> rat option \<times> rat option \<times> string option \<times> int \<times> int" where
  "current_fields g =
     (current_points_earned g, current_points_possible g, current_percentage g,
      current_letter_grade g, assignments_completed g, assignments_total g)"

text \<open>
  The totals as the specification words them: sums over the assignments of the student and
  subject, assigned within the term, that are graded.
\<close>

definition spec_points_earned :: "db \<Rightarrow> int \<Rightarrow> int \<Rightarrow> Term \<Rightarrow> rat" where
  "spec_points_earned d student_id subject_id the_term =
     sum_list (map (\<lambda>r. case sa_points_earned r of None \<Rightarrow> 0 | Some p \<Rightarrow> p)
                 (filter sa_is_graded (term_scope d student_id subject_id the_term)))"

definition spec_points_possible :: "db \<Rightarrow> int \<Rightarrow> int \<Rightarrow> Term \<Rightarrow> int" where
  "spec_points_possible d student_id subject_id the_term =
     sum_list (map (\<lambda>r. case sa_custom_max_points r of
                          Some c \<Rightarrow> c
                        | None \<Rightarrow> (case template_of d r of
                                     Some t \<Rightarrow> tmpl_max_points t
                                   | None \<Rightarrow> 0))
                 (filter sa_is_graded (term_scope d student_id subject_id the_term)))"

text \<open>
  The term-subject link \<^verbatim>\<open>update_term_grade\<close> would use for an assignment: none
  without an active term, and none when the active term has no link for the subject.
\<close>

definition active_term_link :: "db \<Rightarrow> StudentAssignment \<Rightarrow> TermSubject option" where
  "active_term_link d a =
     (case find term_is_active (terms d) of
        None \<Rightarrow> None
      | Some active_term \<Rightarrow>
          (case template_of d a of
             None \<Rightarrow> None
           | Some t \<Rightarrow>
               find (\<lambda>l. ts_term_id l = term_id active_term
                         \<and> ts_subject_id l = tmpl_subject_id t)
                 (term_subjects d)))"

text \<open>
  The in-memory part of the two endpoints: the assignment object after the grade, the
  percentage, the letter and the status have been set on it (\<open>graded_by\<close> is the id
  of the grading user, or \<^verbatim>\<open>None\<close> for an API key). Then the part they share from
  there: the term-grade update, the commit of the grade, and the award step.
\<close>

definition graded_object ::
  "date \<Rightarrow> StudentAssignmentGrade \<Rightarrow> int option \<Rightarrow> db \<Rightarrow> StudentAssignment
     \<Rightarrow> error + StudentAssignment" where
  "graded_object today grade_data graded_by d assignment =
     (case calculate_percentage_grade d
             (assignment
               \<lparr>sa_points_earned := Some (gd_points_earned grade_data),
                sa_teacher_feedback := gd_teacher_feedback grade_data,
                sa_letter_grade := gd_letter_grade grade_data,
                sa_is_graded := True,
                sa_graded_date := Some today,
                sa_graded_by := graded_by\<rparr>) of
        Inl e \<Rightarrow> Inl e
      | Inr (a, percentage) \<Rightarrow>
          Inr (update_status today
                 (case percentage of
                    Some pct \<Rightarrow>
                      if \<not> truthy_str (gd_letter_grade grade_data)
                      then a\<lparr>sa_letter_grade := Some (endpoint_letter_grade pct)\<rparr>
                      else a\<lparr>sa_letter_grade := gd_letter_grade grade_data\<rparr>
                  | None \<Rightarrow> a\<lparr>sa_letter_grade := gd_letter_grade grade_data\<rparr>)))"

definition record_grade ::
  "orm_line \<Rightarrow> int \<Rightarrow> StudentAssignmentGrade \<Rightarrow> db \<Rightarrow> StudentAssignment
     \<Rightarrow> db \<times> (error + StudentAssignment)" where
  "record_grade orm now grade_data d a2 =
     (case update_term_grade orm now a2 d of
        Inl e \<Rightarrow> (d, Inl e)
      | Inr d1 \<Rightarrow>
          (let d2 = d1\<lparr>student_assignments := store_assignment a2 (student_assignments d1)\<rparr>
           in (fst (award_step d2 a2 grade_data),
               case snd (award_step d2 a2 grade_data) of
                 None \<Rightarrow> Inr a2
               | Some e \<Rightarrow> Inl e)))"

text \<open>
  The invariant of \<^verbatim>\<open>percentage_grade\<close>: it is the value computed from the points
  and \<^verbatim>\<open>max_points\<close> of the assignment, and null when there are no points, when
  \<^verbatim>\<open>max_points\<close> is not positive, or when \<^verbatim>\<open>max_points\<close> cannot be read.
\<close>

definition percentage_grade_consistent :: "db \<Rightarrow> StudentAssignment \<Rightarrow> bool" where
  "percentage_grade_consistent d a =
     (case max_points d a of
        Inl e \<Rightarrow> sa_percentage_grade a = None
      | Inr m \<Rightarrow>
          sa_percentage_grade a =
            (case sa_points_earned a of
               None \<Rightarrow> None
             | Some p \<Rightarrow> if m > 0 then Some (p / of_int m * 100) else None))"


text \<open>
  The store after \<^verbatim>\<open>update_term_grade\<close>; an exception leaves it as it was.
\<close>

definition run_update_term_grade ::
  "orm_line \<Rightarrow> int \<Rightarrow> StudentAssignment \<Rightarrow> db \<Rightarrow> db" where
  "run_update_term_grade orm now self d =
     (case update_term_grade orm now self d of Inl e \<Rightarrow> d | Inr d' \<Rightarrow> d')"

text \<open>
  A run of recalculation calls: \<^verbatim>\<open>update_term_grade\<close> on an assignment object, or
  \<^verbatim>\<open>calculate_student_term_grades\<close> for a term and, optionally, one student.
\<close>

datatype recalculation =
  Update_term_grade int StudentAssignment
| Calculate_student_term_grades int int "int option"

fun recalculate :: "orm_line \<Rightarrow> db \<Rightarrow> recalculation \<Rightarrow> db" where
  "recalculate orm d (Update_term_grade now self) = run_update_term_grade orm now self d"
| "recalculate orm d (Calculate_student_term_grades now tid student_id) =
     fst (calculate_student_term_grades now tid student_id d)"

definition recalculations :: "orm_line \<Rightarrow> db \<Rightarrow> recalculation list \<Rightarrow> db" where
  "recalculations orm d rs = foldl (recalculate orm) d rs"

text \<open>
  The two recalculations in closed form, for the proofs: the row a recalculation starts
  from, the row \<^verbatim>\<open>update_term_grade\<close> writes, and the effect of the service loop on
  the term-grade table for one student and term subject.
\<close>

definition term_grade_row :: "StudentTermGrade list \<Rightarrow> int \<Rightarrow> int \<Rightarrow> StudentTermGrade" where
  "term_grade_row rows s t =
     (case find (\<lambda>g. stg_student_id g = s \<and> stg_term_subject_id g = t) rows of
        Some g \<Rightarrow> g
      | None \<Rightarrow> new_StudentTermGrade s t)"

definition recalculated ::
  "int \<Rightarrow> db \<Rightarrow> int \<Rightarrow> int \<Rightarrow> Term \<Rightarrow> StudentTermGrade \<Rightarrow> StudentTermGrade" where
  "recalculated now d student_id subject_id active_term x =
     (let rows = term_scope d student_id subject_id active_term
      in case sql_sum (map sa_points_earned rows) of
           None \<Rightarrow> x
         | Some earned \<Rightarrow>
             (let possible =
                    of_int (sum_list (map (coalesce_max_points d) (filter sa_is_graded rows)))
              in x\<lparr>current_points_earned := Some earned,
                   current_points_possible := Some possible,
                   assignments_completed :=
                     sum_list (map (\<lambda>r. if sa_is_graded r then 1 else 0) rows),
                   assignments_total := int (length rows),
                   current_percentage :=
                     (if 0 < possible then Some (earned / possible * 100) else None),
                   last_calculated := Some now\<rparr>))"

definition write_term_grade ::
  "int \<Rightarrow> db \<Rightarrow> Term \<Rightarrow> StudentTermGrade list \<Rightarrow> User \<times> TermSubject \<Rightarrow> StudentTermGrade list" where
  "write_term_grade now d the_term grades p =
     fst (grade_term_subject now d the_term (fst p) (grades, 0) (snd p))"

definition grading_pairs :: "User list \<Rightarrow> TermSubject list \<Rightarrow> (User \<times> TermSubject) list" where
  "grading_pairs students subjects = concat (map (\<lambda>s. map (Pair s) subjects) students)"

definition service_students :: "db \<Rightarrow> int option \<Rightarrow> User list" where
  "service_students d student_id =
     filter (\<lambda>u. user_role u = STUDENT
                \<and> (case student_id of Some s \<Rightarrow> s \<noteq> 0 \<longrightarrow> user_id u = s | None \<Rightarrow> True))
       (users d)"

text \<open>
  For the idempotence proofs: the links \<^verbatim>\<open>auto_link_subjects_to_terms\<close> adds for one
  term and the terms it looks at; the six rewritten columns as the service computes them
  for a student and a subject; a table in which the row of a loop step already holds
  them; the key and rewritten columns of a row; and two loop steps that, when they write
  the same row, compute it from the same subject.
\<close>

definition missing_links :: "db \<Rightarrow> Term \<Rightarrow> (int \<times> int) list" where
  "missing_links d t =
     map (\<lambda>s. (term_id t, s))
       (filter (\<lambda>s. find (\<lambda>l. ts_term_id l = term_id t \<and> ts_subject_id l = s)
                       (term_subjects d) = None)
          (subject_ids_of d (completed_in_term d t)))"

definition selected_terms :: "db \<Rightarrow> int option \<Rightarrow> Term list" where
  "selected_terms d tid =
     (case tid of
        Some t \<Rightarrow> if t \<noteq> 0 then filter (\<lambda>x. term_id x = t) (terms d) else terms d
      | None \<Rightarrow> terms d)"

definition link_key :: "TermSubject \<Rightarrow> int \<times> int" where
  "link_key l = (ts_term_id l, ts_subject_id l)"

definition service_fields ::
  "db \<Rightarrow> Term \<Rightarrow> int \<Rightarrow> int
     \<Rightarrow> rat option \<times> rat option \<times> rat option \<times> string option \<times> int \<times> int" where
  "service_fields d t sid subj =
     (let graded = graded_assignments_of d t sid subj;
          earned = sum_list (map (\<lambda>a. case sa_points_earned a of None \<Rightarrow> 0 | Some p \<Rightarrow> p) graded);
          possible = sum_list (map (\<lambda>a. case max_points d a of Inr m \<Rightarrow> m | Inl e \<Rightarrow> 0) graded);
          pct = (if possible > 0 then Some (earned / of_int possible * 100) else None)
      in (Some earned, Some (of_int possible), pct, calculate_letter_grade pct,
          int (length graded), int (length graded)))"

definition established :: "db \<Rightarrow> Term \<Rightarrow> StudentTermGrade list \<Rightarrow> User \<times> TermSubject \<Rightarrow> bool" where
  "established d t rows p =
     (graded_assignments_of d t (user_id (fst p)) (ts_subject_id (snd p)) = [] \<or>
      (case find (\<lambda>r. stg_student_id r = user_id (fst p)
                       \<and> stg_term_subject_id r = ts_id (snd p)) rows of
         None \<Rightarrow> False
       | Some x \<Rightarrow>
           current_fields x = service_fields d t (user_id (fst p)) (ts_subject_id (snd p))))"

definition row_view ::
  "StudentTermGrade \<Rightarrow>
     int \<times> int \<times> rat option \<times> rat option \<times> rat option \<times> string option \<times> int \<times> int" where
  "row_view g = (stg_student_id g, stg_term_subject_id g, current_fields g)"

definition same_target :: "User \<times> TermSubject \<Rightarrow> User \<times> TermSubject \<Rightarrow> bool" where
  "same_target p q =
     (user_id (fst p) = user_id (fst q) \<and> ts_id (snd p) = ts_id (snd q)
        \<longrightarrow> ts_subject_id (snd p) = ts_subject_id (snd q))"

section \<open>Test data\<close>

definition sample_assignment :: StudentAssignment where
  "sample_assignment =
     \<lparr>sa_id = 1, sa_template_id = 1, sa_student_id = 2, sa_assigned_date = 10,
      sa_due_date = None, sa_extended_due_date = None, sa_status = NOT_STARTED,
      sa_started_date = None, sa_completed_date = None, sa_submitted_date = None,
      sa_points_earned = None, sa_percentage_grade = None, sa_letter_grade = None,
      sa_is_graded = False, sa_graded_date = None, sa_graded_by = None,
      sa_teacher_feedback = None, sa_custom_max_points = None\<rparr>"

definition sample_admin :: User where
  "sample_admin = \<lparr>user_id = 1, user_role = ADMIN\<rparr>"

definition sample_term :: Term where
  "sample_term =
     \<lparr>term_id = 1, term_start_date = 0, term_end_date = 100, term_is_active = True\<rparr>"

definition sample_db :: db where
  "sample_db =
     \<lparr>users = [sample_admin, \<lparr>user_id = 2, user_role = STUDENT\<rparr>],
      assignment_templates = [\<lparr>tmpl_id = 1, tmpl_subject_id = 1, tmpl_max_points = 100\<rparr>],
      student_assignments = [sample_assignment],
      terms = [sample_term],
      term_subjects = [\<lparr>ts_id = 1, ts_term_id = 1, ts_subject_id = 1\<rparr>],
      student_term_grades = [],
      student_points = [],
      point_transactions = [],
      system_settings =
        [\<lparr>setting_key = ''points_system_enabled'', setting_value = ''True'',
          setting_is_active = True\<rparr>]\<rparr>"

definition grade_data_of :: "rat \<Rightarrow> StudentAssignmentGrade" where
  "grade_data_of points =
     \<lparr>gd_points_earned = points, gd_teacher_feedback = None, gd_letter_grade = None\<rparr>"

definition grade_request :: "rat \<Rightarrow> grading_request" where
  "grade_request points =
     \<lparr>gr_today = 20, gr_now = 2000, gr_assignment_id = 1,
      gr_grade_data = grade_data_of points, gr_current_user = sample_admin\<rparr>"

definition no_active_term_db :: db where
  "no_active_term_db =
     sample_db\<lparr>terms := [sample_term\<lparr>term_is_active := False\<rparr>,
                         \<lparr>term_id = 2, term_start_date = 101, term_end_date = 200,
                          term_is_active = False\<rparr>]\<rparr>"

definition no_link_db :: db where
  "no_link_db = sample_db\<lparr>term_subjects := [\<lparr>ts_id = 1, ts_term_id = 1, ts_subject_id = 7\<rparr>]\<rparr>"

definition zero_max_db :: db where
  "zero_max_db =
     sample_db\<lparr>assignment_templates :=
                 [\<lparr>tmpl_id = 1, tmpl_subject_id = 1, tmpl_max_points = 0\<rparr>]\<rparr>"

definition graded_assignment :: StudentAssignment where
  "graded_assignment =
     sample_assignment\<lparr>sa_points_earned := Some 85, sa_percentage_grade := Some 85,
       sa_letter_grade := Some ''B'', sa_is_graded := True, sa_status := GRADED,
       sa_completed_date := Some 15\<rparr>"

definition finalized_db :: db where
  "finalized_db =
     sample_db\<lparr>student_assignments := [graded_assignment],
       student_term_grades :=
         [finalize_grade 1 50
            ((new_StudentTermGrade 2 1)
               \<lparr>current_points_earned := Some 40, current_points_possible := Some 50,
                current_percentage := Some 80, current_letter_grade := Some ''B-''\<rparr>)]\<rparr>"

definition empty_db :: db where
  "empty_db =
     \<lparr>users = [], assignment_templates = [], student_assignments = [], terms = [],
      term_subjects = [], student_term_grades = [], student_points = [],
      point_transactions = [], system_settings = []\<rparr>"

definition api_grade_request :: "rat \<Rightarrow> api_grading_request" where
  "api_grade_request points =
     \<lparr>ag_today = 21, ag_now = 2100, ag_assignment_id = 1,
      ag_grade_data = grade_data_of points, ag_has_permission = True\<rparr>"

text \<open>
  The lowest amount an \<^verbatim>\<open>Integer\<close> column takes, as an adjustment for the student
  of the sample data; and a store without an active term in which the student holds the
  highest balance the column takes, after one adjustment by that amount.
\<close>

definition lowest_adjustment :: AdminPointAdjustment where
  "lowest_adjustment = \<lparr>apa_student_id = 2, apa_amount = - 2147483648\<rparr>"

definition highest_adjustment :: AdminPointAdjustment where
  "highest_adjustment = \<lparr>apa_student_id = 2, apa_amount = 2147483647\<rparr>"

definition full_balance_db :: db where
  "full_balance_db =
     no_active_term_db
       \<lparr>student_points :=
          [\<lparr>sp_student_id = 2, current_balance = 2147483647, total_earned = 2147483647,
            total_spent = 0\<rparr>],
        point_transactions :=
          [\<lparr>pt_student_id = 2, pt_amount = 2147483647, pt_transaction_type = ''admin_award'',
            pt_source_id = None, pt_admin_id = Some 1\<rparr>]\<rparr>"

definition full_balance_no_link_db :: db where
  "full_balance_no_link_db =
     no_link_db
       \<lparr>student_points := student_points full_balance_db,
        point_transactions := point_transactions full_balance_db\<rparr>"

definition sample_point_ops :: "point_op list" where
  "sample_point_ops =
     [Award 1 7 85,
      Adjust \<lparr>apa_student_id = 2, apa_amount = 10\<rparr> None,
      Award 1 8 (17 / 2),
      Adjust \<lparr>apa_student_id = 1, apa_amount = - 20\<rparr> (Some 9)]"

section \<open>Properties\<close>

subsection \<open>Points ledger\<close>

lemma find_store_same:
  "sp_student_id sp = k \<Longrightarrow>
   find (\<lambda>r. sp_student_id r = k) (store_student_points sp rs) =
     (case find (\<lambda>r. sp_student_id r = k) rs of None \<Rightarrow> None | Some r \<Rightarrow> Some sp)"
  by (induction rs) auto

lemma find_store_other:
  "sp_student_id sp \<noteq> k \<Longrightarrow>
   find (\<lambda>r. sp_student_id r = k) (store_student_points sp rs) =
     find (\<lambda>r. sp_student_id r = k) rs"
  by (induction rs) auto

lemma find_student_points_key:
  "find (\<lambda>r. sp_student_id r = k) rs = Some sp \<Longrightarrow> sp_student_id sp = k"
  by (induction rs) (auto split: if_splits)

lemma store_append_new:
  "find (\<lambda>r. sp_student_id r = sp_student_id sp) rs = None \<Longrightarrow>
   sp_student_id sp0 = sp_student_id sp \<Longrightarrow>
   store_student_points sp (rs @ [sp0]) = rs @ [sp]"
  by (induction rs) (auto split: if_splits)

lemma find_snoc:
  "find P (rs @ [r]) =
     (case find P rs of None \<Rightarrow> (if P r then Some r else None) | Some x \<Rightarrow> Some x)"
  by (induction rs) auto

text \<open>
  \<^verbatim>\<open>create_point_transaction\<close> in closed form. For a student with a balance row
  there is one commit: it writes the ledger row and the new balance, or nothing. For a
  student without one, the commit of \<^verbatim>\<open>get_or_create_student_points\<close> writes the
  ledger row beside a zero balance, and the final commit writes the balance.
\<close>

lemma create_point_transaction_existing:
  assumes "find (\<lambda>sp. sp_student_id sp = ptc_student_id tr) (student_points d) = Some sp"
  shows "fst (create_point_transaction d tr a) =
           (if in_integer_range (ptc_amount tr)
               \<and> in_integer_range (current_balance sp + ptc_amount tr)
               \<and> in_integer_range (total_earned sp + (if 0 < ptc_amount tr then ptc_amount tr else 0))
               \<and> in_integer_range (total_spent sp + (if 0 < ptc_amount tr then 0 else \<bar>ptc_amount tr\<bar>))
            then d\<lparr>point_transactions := point_transactions d @
                      [\<lparr>pt_student_id = ptc_student_id tr, pt_amount = ptc_amount tr,
                        pt_transaction_type = ptc_transaction_type tr,
                        pt_source_id = ptc_source_id tr, pt_admin_id = a\<rparr>],
                   student_points := store_student_points
                      (sp\<lparr>current_balance := current_balance sp + ptc_amount tr,
                          total_earned := total_earned sp + (if 0 < ptc_amount tr then ptc_amount tr else 0),
                          total_spent := total_spent sp + (if 0 < ptc_amount tr then 0 else \<bar>ptc_amount tr\<bar>)\<rparr>)
                      (student_points d)\<rparr>
            else d)"
  using assms
  by (simp add: create_point_transaction_def get_or_create_student_points_def Let_def
      transaction_fits_def student_points_fit_def)

lemma create_point_transaction_new:
  assumes "find (\<lambda>sp. sp_student_id sp = ptc_student_id tr) (student_points d) = None"
  shows "fst (create_point_transaction d tr a) =
           (if in_integer_range (ptc_amount tr)
            then d\<lparr>point_transactions := point_transactions d @
                      [\<lparr>pt_student_id = ptc_student_id tr, pt_amount = ptc_amount tr,
                        pt_transaction_type = ptc_transaction_type tr,
                        pt_source_id = ptc_source_id tr, pt_admin_id = a\<rparr>],
                   student_points := student_points d @
                      [\<lparr>sp_student_id = ptc_student_id tr,
                        current_balance = (if ptc_amount tr = integer_min then 0 else ptc_amount tr),
                        total_earned = (if 0 < ptc_amount tr then ptc_amount tr else 0),
                        total_spent = (if 0 < ptc_amount tr \<or> ptc_amount tr = integer_min
                                       then 0 else \<bar>ptc_amount tr\<bar>)\<rparr>]\<rparr>
            else d)"
  using assms
  by (auto simp: create_point_transaction_def get_or_create_student_points_def Let_def
      transaction_fits_def student_points_fit_def in_integer_range_def integer_min_def
      integer_max_def store_append_new)

lemma ledger_inv_create:
  assumes inv: "ledger_inv d k"
    and amount: "ptc_amount tr \<noteq> integer_min"
  shows "ledger_inv (fst (create_point_transaction d tr a)) k"
proof (cases "find (\<lambda>sp. sp_student_id sp = ptc_student_id tr) (student_points d)")
  case None
  with inv amount show ?thesis
    by (auto simp: create_point_transaction_new ledger_inv_def balance_of_def ledger_sum_def
        find_snoc split: option.splits if_splits)
next
  case (Some sp)
  then have "sp_student_id sp = ptc_student_id tr" by (rule find_student_points_key)
  with Some inv show ?thesis
    by (auto simp: create_point_transaction_existing ledger_inv_def balance_of_def
        ledger_sum_def find_store_same find_store_other split: option.splits if_splits)
qed

lemma ledger_inv_op:
  assumes "ledger_inv d k" and "op_amount op \<noteq> Some integer_min"
  shows "ledger_inv (apply_point_op d op) k"
proof (cases op)
  case (Award student_id assignment_id points_earned)
  with assms show ?thesis
    by (auto simp: award_assignment_points_def Let_def intro: ledger_inv_create
        split: sum.splits)
next
  case (Adjust adjustment admin_id)
  with assms show ?thesis
    by (simp add: admin_adjust_points_def Let_def ledger_inv_create)
qed

text \<open>
  The balance invariant holds through every run of awards and adjustments in which no
  operation carries the lowest amount of the column.
\<close>

lemma ledger_inv_ops:
  assumes "ledger_inv d k" and "list_all (\<lambda>op. op_amount op \<noteq> Some integer_min) ops"
  shows "ledger_inv (apply_point_ops d ops) k"
  using assms unfolding apply_point_ops_def
  by (induction ops arbitrary: d) (auto intro: ledger_inv_op)

lemma ledger_balance_invariant_above_minimum:
  assumes "balance_of d0 student_id = None"
    and "filter (\<lambda>t. pt_student_id t = student_id) (point_transactions d0) = []"
    and "list_all (\<lambda>op. op_amount op \<noteq> Some integer_min) ops"
  shows "case balance_of (apply_point_ops d0 ops) student_id of
           None \<Rightarrow> filter (\<lambda>t. pt_student_id t = student_id)
                      (point_transactions (apply_point_ops d0 ops)) = []
         | Some b \<Rightarrow> b = ledger_sum (apply_point_ops d0 ops) student_id"
proof -
  from assms(1,2) have "ledger_inv d0 student_id" by (simp add: ledger_inv_def)
  then have "ledger_inv (apply_point_ops d0 ops) student_id"
    using assms(3) by (rule ledger_inv_ops)
  then show ?thesis by (simp add: ledger_inv_def)
qed

lemma floor_17_2: "\<lfloor>17 / 2 :: rat\<rfloor> = 8"
  by (simp add: floor_eq_iff)

lemma validate_int_samples:
  "validate_int 85 = Inr 85" "validate_int (17 / 2) = Inl ValidationError"
  by (simp_all add: validate_int_def floor_17_2)

lemma lower_True: "lower ''True'' = ''true''"
  by code_simp

lemmas points_defs = award_assignment_points_def admin_adjust_points_def
  adjust_student_points_def create_point_transaction_def get_or_create_student_points_def
  transaction_fits_def student_points_fit_def in_integer_range_def integer_min_def
  integer_max_def is_points_system_enabled_def get_system_setting_def lower_True Let_def

lemma sample_point_ops_run:
  "balance_of (apply_point_ops empty_db sample_point_ops) 1 = Some 65 \<and>
   ledger_sum (apply_point_ops empty_db sample_point_ops) 1 = 65"
  by (simp add: empty_db_def sample_point_ops_def apply_point_ops_def balance_of_def
      points_defs ledger_sum_def validate_int_samples)

text \<open>
  C1, at an adjustment by \<open>-2147483648\<close> for a student without a balance row, a request
  \<^verbatim>\<open>POST /points/adjust\<close> accepts: the commit inside
  \<^verbatim>\<open>get_or_create_student_points\<close> writes the ledger row together with the new
  zero-balance row, the final commit raises on \<^verbatim>\<open>total_spent = 2147483648\<close>, and the
  store is left with a ledger sum of \<open>-2147483648\<close> beside a balance of \<open>0\<close>.
\<close>

theorem ledger_row_committed_before_balance:
  "balance_of sample_db 2 = None \<and>
   filter (\<lambda>t. pt_student_id t = 2) (point_transactions sample_db) = [] \<and>
   snd (adjust_student_points lowest_adjustment (Some 1) sample_db) = Inl DataError \<and>
   fst (adjust_student_points lowest_adjustment (Some 1) sample_db) =
     apply_point_ops sample_db [Adjust lowest_adjustment (Some 1)] \<and>
   map pt_amount (point_transactions (apply_point_ops sample_db [Adjust lowest_adjustment (Some 1)]))
     = [- 2147483648] \<and>
   ledger_sum (apply_point_ops sample_db [Adjust lowest_adjustment (Some 1)]) 2 = - 2147483648 \<and>
   balance_of (apply_point_ops sample_db [Adjust lowest_adjustment (Some 1)]) 2 = Some 0"
  by (simp add: sample_db_def sample_admin_def sample_assignment_def sample_term_def
      lowest_adjustment_def apply_point_ops_def balance_of_def ledger_sum_def points_defs)

subsection \<open>Attendance rate\<close>

lemma count_status_append:
  "count_status s (xs @ ys) = count_status s xs + count_status s ys"
  by (simp add: count_status_def)

lemma count_status_records_of:
  "count_status s (records_of s' n) = (if s = s' then int n else 0)"
  by (simp add: count_status_def records_of_def)

text \<open>
  C7, as stated, at a requirement of \<open>-5\<close> (the settings store holds any integer text):
  the function returns \<open>0\<close>, the stated quotient is \<open>-20\<close>.
\<close>

theorem attendance_rate_counterexample:
  "calculate_attendance_rate (records_of PRESENT 1) (- 5) = 0 \<and>
   (of_int (count_status PRESENT (records_of PRESENT 1)
            + count_status LATE (records_of PRESENT 1)
            + count_status EXCUSED (records_of PRESENT 1)) / of_int (- 5) * 100 :: rat) = - 20"
  by (simp add: calculate_attendance_rate_def count_status_records_of)

text \<open>
  C7, amended. For every list of records and every positive requirement the rate is
  (present + late + excused) / requirement * 100, whatever the number of records; for a
  requirement of zero or less it is \<open>0\<close>.
\<close>

theorem attendance_rate_positive_requirement:
  "calculate_attendance_rate attendance_records required_days_of_instruction =
     (if 0 < required_days_of_instruction
      then of_int (count_status PRESENT attendance_records
                   + count_status LATE attendance_records
                   + count_status EXCUSED attendance_records)
           / of_int required_days_of_instruction * 100
      else 0)"
  by (simp add: calculate_attendance_rate_def)

theorem attendance_rate_positive_requirement_witness:
  "calculate_attendance_rate (records_of PRESENT 90) 180 = 50 \<and>
   calculate_attendance_rate
     (records_of PRESENT 170 @ records_of ABSENT 5 @ records_of LATE 5) 180
     = (170 + 5) / 180 * 100 \<and>
   calculate_attendance_rate (records_of PRESENT 90) 0 = 0"
  using attendance_rate_positive_requirement [of "records_of PRESENT 90" 180]
    attendance_rate_positive_requirement
      [of "records_of PRESENT 170 @ records_of ABSENT 5 @ records_of LATE 5" 180]
    attendance_rate_positive_requirement [of "records_of PRESENT 90" 0]
  by (simp add: count_status_append count_status_records_of)

subsection \<open>The grading endpoints\<close>

text \<open>
  Both endpoints are their checks, then the graded object, then the shared part
  \<open>record_grade\<close>.
\<close>

lemma grade_student_assignment_unfold:
  "grade_student_assignment orm today now assignment_id grade_data current_user d =
     (if gd_points_earned grade_data < 0 then (d, Inl (HTTPException 422))
      else if user_role current_user \<noteq> ADMIN then (d, Inl (HTTPException 403))
      else
        (case find (\<lambda>a. sa_id a = assignment_id) (student_assignments d) of
           None \<Rightarrow> (d, Inl (HTTPException 404))
         | Some assignment \<Rightarrow>
             if find (\<lambda>u. user_id u = sa_student_id assignment \<and> user_role u = STUDENT)
                  (users d) = None
             then (d, Inl (HTTPException 404))
             else
               (case max_points d assignment of
                  Inl e \<Rightarrow> (d, Inl e)
                | Inr max_pts \<Rightarrow>
                    if gd_points_earned grade_data > of_int max_pts
                    then (d, Inl (HTTPException 400))
                    else
                      (case graded_object today grade_data (Some (user_id current_user)) d
                              assignment of
                         Inl e \<Rightarrow> (d, Inl e)
                       | Inr a2 \<Rightarrow> record_grade orm now grade_data d a2))))"
  by (simp add: grade_student_assignment_def graded_object_def record_grade_def Let_def
      case_prod_beta split: option.splits sum.splits prod.splits)

lemma grade_assignment_via_api_unfold:
  "grade_assignment_via_api orm today now assignment_id grade_data has_permission d =
     (if \<not> has_permission then (d, Inl (HTTPException 403))
      else if gd_points_earned grade_data < 0 then (d, Inl (HTTPException 422))
      else
        (case find (\<lambda>a. sa_id a = assignment_id) (student_assignments d) of
           None \<Rightarrow> (d, Inl (HTTPException 404))
         | Some assignment \<Rightarrow>
             (case max_points d assignment of
                Inl e \<Rightarrow> (d, Inl e)
              | Inr max_pts \<Rightarrow>
                  if gd_points_earned grade_data > of_int max_pts
                  then (d, Inl (HTTPException 400))
                  else
                    (case graded_object today grade_data None d assignment of
                       Inl e \<Rightarrow> (d, Inl e)
                     | Inr a2 \<Rightarrow> record_grade orm now grade_data d a2))))"
  by (simp add: grade_assignment_via_api_def graded_object_def record_grade_def Let_def
      case_prod_beta split: option.splits sum.splits prod.splits)

lemma update_status_fields:
  "sa_id (update_status today a) = sa_id a"
  "sa_template_id (update_status today a) = sa_template_id a"
  "sa_student_id (update_status today a) = sa_student_id a"
  "sa_assigned_date (update_status today a) = sa_assigned_date a"
  "sa_custom_max_points (update_status today a) = sa_custom_max_points a"
  "sa_points_earned (update_status today a) = sa_points_earned a"
  "sa_percentage_grade (update_status today a) = sa_percentage_grade a"
  "sa_letter_grade (update_status today a) = sa_letter_grade a"
  "sa_is_graded (update_status today a) = sa_is_graded a"
  "sa_completed_date (update_status today a) = sa_completed_date a"
  by (simp_all add: update_status_def Let_def)

lemma max_points_cong:
  "sa_template_id a' = sa_template_id a \<Longrightarrow> sa_custom_max_points a' = sa_custom_max_points a \<Longrightarrow>
   max_points d a' = max_points d a"
  by (simp add: max_points_def template_max_points_def template_of_def split: option.splits)

lemma graded_object_Inr:
  assumes "graded_object today gd graded_by d assignment = Inr a2"
  shows "sa_id a2 = sa_id assignment"
    and "sa_template_id a2 = sa_template_id assignment"
    and "sa_student_id a2 = sa_student_id assignment"
    and "sa_assigned_date a2 = sa_assigned_date assignment"
    and "sa_custom_max_points a2 = sa_custom_max_points assignment"
    and "sa_points_earned a2 = Some (gd_points_earned gd)"
    and "sa_is_graded a2"
    and "sa_completed_date a2 = sa_completed_date assignment"
  using assms
  by (auto simp: graded_object_def calculate_percentage_grade_def update_status_fields
      split: sum.splits option.splits if_splits prod.splits)

lemma graded_object_percentage:
  assumes "graded_object today gd graded_by d assignment = Inr a2"
    and "max_points d assignment = Inr m"
  shows "sa_percentage_grade a2 =
           (if m > 0 then Some (gd_points_earned gd / of_int m * 100)
            else sa_percentage_grade assignment)"
  using assms
  by (auto simp: graded_object_def calculate_percentage_grade_def update_status_fields
      max_points_def template_max_points_def template_of_def
      split: sum.splits option.splits if_splits prod.splits)

lemma graded_object_succeeds:
  assumes "max_points d assignment = Inr m"
  shows "\<exists>a2. graded_object today gd graded_by d assignment = Inr a2"
  using assms
  by (auto simp: graded_object_def calculate_percentage_grade_def
      max_points_def template_max_points_def template_of_def
      split: sum.splits option.splits if_splits prod.splits)

lemma update_term_grade_frame:
  assumes "update_term_grade orm now self d = Inr d'"
  shows "users d' = users d" and "assignment_templates d' = assignment_templates d"
    and "terms d' = terms d" and "term_subjects d' = term_subjects d"
    and "student_points d' = student_points d"
    and "point_transactions d' = point_transactions d"
    and "system_settings d' = system_settings d"
  using assms
  by (auto simp: update_term_grade_def Let_def calculate_current_grade_def
      split: option.splits sum.splits if_splits)

text \<open>
  On the 1.x line \<^verbatim>\<open>update_term_grade\<close> returns whenever the assignment has its
  template; on the 2.x line it returns only by one of its early returns, with the store
  as it was.
\<close>

lemma update_term_grade_succeeds:
  assumes "template_of d self \<noteq> None"
  shows "\<exists>d'. update_term_grade SQLAlchemy_1 now self d = Inr d'"
  using assms
  by (auto simp: update_term_grade_def Let_def calculate_current_grade_def
      split: option.splits sum.splits if_splits)

lemma update_term_grade_2_returns:
  assumes "update_term_grade SQLAlchemy_2 now self d = Inr d'"
  shows "d' = d"
  using assms
  by (auto simp: update_term_grade_def split: option.splits if_splits)

lemma store_assignment_idem:
  "store_assignment a (store_assignment a rs) = store_assignment a rs"
  by (induction rs) auto

lemma update_term_grade_assignments:
  assumes "update_term_grade orm now self d = Inr d'"
  shows "store_assignment self (student_assignments d') = store_assignment self (student_assignments d)"
  using assms
  by (auto simp: update_term_grade_def Let_def calculate_current_grade_def store_assignment_idem
      split: option.splits sum.splits if_splits)

lemma find_store_assignment:
  "find (\<lambda>r. sa_id r = k) rs = Some x \<Longrightarrow> sa_id a = k \<Longrightarrow>
   find (\<lambda>r. sa_id r = k) (store_assignment a rs) = Some a"
  by (induction rs) (auto split: if_splits)

lemma create_point_transaction_frame:
  "users (fst (create_point_transaction d tr a)) = users d"
  "assignment_templates (fst (create_point_transaction d tr a)) = assignment_templates d"
  "student_assignments (fst (create_point_transaction d tr a)) = student_assignments d"
  "terms (fst (create_point_transaction d tr a)) = terms d"
  "term_subjects (fst (create_point_transaction d tr a)) = term_subjects d"
  "student_term_grades (fst (create_point_transaction d tr a)) = student_term_grades d"
  "system_settings (fst (create_point_transaction d tr a)) = system_settings d"
  by (cases "find (\<lambda>sp. sp_student_id sp = ptc_student_id tr) (student_points d)";
      simp add: create_point_transaction_new create_point_transaction_existing)+

lemma award_step_frame:
  "users (fst (award_step d a gd)) = users d"
  "assignment_templates (fst (award_step d a gd)) = assignment_templates d"
  "student_assignments (fst (award_step d a gd)) = student_assignments d"
  "terms (fst (award_step d a gd)) = terms d"
  "term_subjects (fst (award_step d a gd)) = term_subjects d"
  "student_term_grades (fst (award_step d a gd)) = student_term_grades d"
  "system_settings (fst (award_step d a gd)) = system_settings d"
  by (simp_all add: award_step_def award_assignment_points_def Let_def case_prod_beta
      create_point_transaction_frame split: sum.splits)





lemma award_step_validation_error:
  "validate_int (gd_points_earned gd) = Inl e \<Longrightarrow> award_step d a gd = (d, None)"
  by (simp add: award_step_def award_assignment_points_def validate_int_def split: if_splits)

lemma award_step_disabled:
  "\<not> is_points_system_enabled d \<Longrightarrow> award_step d a gd = (d, None)"
  by (simp add: award_step_def)

lemma update_term_grade_zero:
  "sa_points_earned self = None \<or> sa_points_earned self = Some 0 \<Longrightarrow>
   update_term_grade orm now self d = Inr d"
  by (auto simp: update_term_grade_def)

lemma update_term_grade_no_link:
  "active_term_link d self = None \<Longrightarrow> template_of d self \<noteq> None \<Longrightarrow>
   update_term_grade orm now self d = Inr d"
  by (auto simp: update_term_grade_def active_term_link_def split: option.splits)

lemma template_of_cong:
  "sa_template_id a' = sa_template_id a \<Longrightarrow> template_of d a' = template_of d a"
  by (simp add: template_of_def)

lemma active_term_link_cong:
  "sa_template_id a' = sa_template_id a \<Longrightarrow> active_term_link d a' = active_term_link d a"
  by (simp add: active_term_link_def template_of_def split: option.splits)

text \<open>The endpoint gets past its checks under these conditions.\<close>

lemma grade_student_assignment_checked:
  assumes pts: "0 \<le> gd_points_earned gd"
    and admin: "user_role u = ADMIN"
    and found: "find (\<lambda>a. sa_id a = aid) (student_assignments d) = Some assignment"
    and student: "find (\<lambda>x. user_id x = sa_student_id assignment \<and> user_role x = STUDENT)
                    (users d) \<noteq> None"
    and maxp: "max_points d assignment = Inr m"
    and le: "gd_points_earned gd \<le> of_int m"
  shows "\<exists>a2. graded_object today gd (Some (user_id u)) d assignment = Inr a2
           \<and> grade_student_assignment orm today now aid gd u d = record_grade orm now gd d a2"
proof -
  from graded_object_succeeds [OF maxp] obtain a2
    where a2: "graded_object today gd (Some (user_id u)) d assignment = Inr a2" by blast
  show ?thesis
    using pts admin found student maxp le a2
    by (auto simp: grade_student_assignment_unfold)
qed


text \<open>
  A validation error of the award (a grade with a fractional number of points) is
  swallowed: the request succeeds, the grade is stored, and the points tables are as they
  were.
\<close>

lemma award_validation_error_is_swallowed:
  assumes "0 \<le> gd_points_earned gd"
    and "user_role u = ADMIN"
    and found: "find (\<lambda>a. sa_id a = aid) (student_assignments d) = Some assignment"
    and "find (\<lambda>x. user_id x = sa_student_id assignment \<and> user_role x = STUDENT)
           (users d) \<noteq> None"
    and "max_points d assignment = Inr m"
    and "gd_points_earned gd \<le> of_int m"
    and tmpl: "template_of d assignment \<noteq> None"
    and line: "orm = SQLAlchemy_1 \<or> active_term_link d assignment = None"
    and fails: "validate_int (gd_points_earned gd) = Inl e"
  shows "\<exists>d' a. grade_student_assignment orm today now aid gd u d = (d', Inr a)
           \<and> point_transactions d' = point_transactions d
           \<and> student_points d' = student_points d
           \<and> find (\<lambda>r. sa_id r = aid) (student_assignments d') = Some a
           \<and> sa_points_earned a = Some (gd_points_earned gd) \<and> sa_is_graded a"
proof -
  from grade_student_assignment_checked [OF assms(1-6)] obtain a2
    where a2: "graded_object today gd (Some (user_id u)) d assignment = Inr a2"
      and res: "grade_student_assignment orm today now aid gd u d = record_grade orm now gd d a2"
    by blast
  have t2: "template_of d a2 \<noteq> None"
    using tmpl template_of_cong [OF graded_object_Inr(2) [OF a2]] by simp
  have "\<exists>d1. update_term_grade orm now a2 d = Inr d1"
  proof (cases "orm = SQLAlchemy_1")
    case True
    with update_term_grade_succeeds [OF t2] show ?thesis by simp
  next
    case False
    with line have "active_term_link d a2 = None"
      using active_term_link_cong [OF graded_object_Inr(2) [OF a2]] by simp
    from update_term_grade_no_link [OF this t2] show ?thesis by blast
  qed
  then obtain d1 where d1: "update_term_grade orm now a2 d = Inr d1" by blast
  have id: "sa_id a2 = aid"
    using graded_object_Inr(1) [OF a2] found by (auto simp: find_Some_iff)
  have "find (\<lambda>r. sa_id r = aid) (store_assignment a2 (student_assignments d)) = Some a2"
    using found id by (intro find_store_assignment)
  then have "find (\<lambda>r. sa_id r = aid) (store_assignment a2 (student_assignments d1)) = Some a2"
    using update_term_grade_assignments [OF d1] by simp
  then show ?thesis
    using res d1 graded_object_Inr(6,7) [OF a2] update_term_grade_frame [OF d1]
    by (simp add: record_grade_def Let_def award_step_validation_error [OF fails])
qed

lemmas sample_defs = sample_db_def sample_assignment_def sample_admin_def sample_term_def
  grade_request_def grade_data_of_def no_active_term_db_def no_link_db_def
  api_grade_request_def full_balance_db_def full_balance_no_link_db_def

lemmas model_defs = apply_grading_def grade_student_assignment_def
  grade_assignment_via_api_def max_points_def template_max_points_def
  template_of_def calculate_percentage_grade_def update_status_def update_term_grade_def
  term_scope_def sql_sum_def coalesce_max_points_def calculate_current_grade_def new_StudentTermGrade_def
  award_step_def validate_int_def truthy_str_def points_defs
  endpoint_letter_grade_def active_term_link_def

lemma floor_171_2: "\<lfloor>171 / 2 :: rat\<rfloor> = 85"
  by (simp add: floor_eq_iff)

lemma award_validation_error_sample:
  "grade_student_assignment SQLAlchemy_2 20 2000 1 (grade_data_of (171 / 2)) sample_admin
     no_active_term_db =
     (no_active_term_db
        \<lparr>student_assignments :=
           [sample_assignment
              \<lparr>sa_points_earned := Some (171 / 2), sa_percentage_grade := Some (171 / 2),
               sa_letter_grade := Some ''B'', sa_is_graded := True, sa_graded_date := Some 20,
               sa_graded_by := Some 1, sa_status := GRADED\<rparr>]\<rparr>,
      Inr (sample_assignment
              \<lparr>sa_points_earned := Some (171 / 2), sa_percentage_grade := Some (171 / 2),
               sa_letter_grade := Some ''B'', sa_is_graded := True, sa_graded_date := Some 20,
               sa_graded_by := Some 1, sa_status := GRADED\<rparr>))"
  by (simp add: sample_defs model_defs floor_171_2)

text \<open>
  C10. For an assignment whose \<^verbatim>\<open>points_earned\<close> is null or \<open>0\<close>,
  \<^verbatim>\<open>update_term_grade\<close> returns at once with the store as it was, whatever the store
  holds (so it depends on no term, link or term-grade row) and on either line of the ORM;
  and a grading request with \<open>0\<close> points, to either endpoint, leaves the term-grade
  table as it was.
\<close>

theorem zero_points_skip_term_grade:
  "(sa_points_earned self = None \<or> sa_points_earned self = Some 0
      \<longrightarrow> update_term_grade orm now self d = Inr d) \<and>
   (gd_points_earned gd = 0
      \<longrightarrow> student_term_grades (apply_grading orm d
             \<lparr>gr_today = today, gr_now = now, gr_assignment_id = aid,
              gr_grade_data = gd, gr_current_user = u\<rparr>) = student_term_grades d
          \<and> student_term_grades
              (fst (grade_assignment_via_api orm today now aid gd has_permission d)) =
                student_term_grades d)"
proof (intro conjI impI)
  assume "sa_points_earned self = None \<or> sa_points_earned self = Some 0"
  then show "update_term_grade orm now self d = Inr d" by (rule update_term_grade_zero)
next
  assume z: "gd_points_earned gd = 0"
  have skip: "\<And>a2 assignment graded_by. graded_object today gd graded_by d assignment = Inr a2 \<Longrightarrow>
          update_term_grade orm now a2 d = Inr d"
    using graded_object_Inr(6) z by (intro update_term_grade_zero) simp
  have rows: "\<And>a2 assignment graded_by. graded_object today gd graded_by d assignment = Inr a2 \<Longrightarrow>
          student_term_grades (fst (record_grade orm now gd d a2)) = student_term_grades d"
    using skip by (simp add: record_grade_def Let_def award_step_frame)
  show "student_term_grades (apply_grading orm d
             \<lparr>gr_today = today, gr_now = now, gr_assignment_id = aid,
              gr_grade_data = gd, gr_current_user = u\<rparr>) = student_term_grades d"
    using rows
    by (auto simp: apply_grading_def grade_student_assignment_unfold
        split: sum.splits option.splits if_splits)
  show "student_term_grades
          (fst (grade_assignment_via_api orm today now aid gd has_permission d)) =
            student_term_grades d"
    using rows
    by (auto simp: grade_assignment_via_api_unfold
        split: sum.splits option.splits if_splits)
qed

theorem zero_points_skip_term_grade_witness:
  "sa_points_earned (sample_assignment\<lparr>sa_points_earned := Some 0, sa_is_graded := True\<rparr>) = Some 0 \<and>
   update_term_grade SQLAlchemy_1 2000
     (sample_assignment\<lparr>sa_points_earned := Some 0, sa_is_graded := True\<rparr>)
     sample_db = Inr sample_db \<and>
   gd_points_earned (grade_data_of 0) = 0 \<and>
   student_term_grades (apply_grading SQLAlchemy_1 sample_db (grade_request 0)) = [] \<and>
   map sa_points_earned
     (student_assignments (apply_grading SQLAlchemy_1 sample_db (grade_request 0))) = [Some 0] \<and>
   student_term_grades
     (fst (grade_assignment_via_api SQLAlchemy_1 20 2000 1 (grade_data_of 0) True sample_db)) = [] \<and>
   map sa_points_earned
     (student_assignments
        (fst (grade_assignment_via_api SQLAlchemy_1 20 2000 1 (grade_data_of 0) True sample_db)))
     = [Some 0]"
  using zero_points_skip_term_grade
    [of "sample_assignment\<lparr>sa_points_earned := Some 0, sa_is_graded := True\<rparr>"
        SQLAlchemy_1 2000 sample_db "grade_data_of 0" 20 1 sample_admin True]
  by (simp add: sample_defs model_defs)




text \<open>
  C2, at a grade of one point for a student whose balance is \<open>2147483647\<close> (no
  term is active, so the term grades play no part): \<^verbatim>\<open>award_assignment_points\<close>
  raises at its commit and leaves the points tables as they were, the grade has been
  committed before, and the request is answered with \<^verbatim>\<open>PendingRollbackError\<close> (status
  500) where the claim has a success. The store is one that an adjustment by
  \<open>2147483647\<close> leaves.
\<close>

theorem award_commit_failure_fails_grading:
  "fst (adjust_student_points highest_adjustment (Some 1) no_active_term_db) = full_balance_db \<and>
   snd (award_assignment_points full_balance_db 2 1 1) = Inl DataError \<and>
   map (\<lambda>orm. snd (grade_student_assignment orm 20 2000 1 (grade_data_of 1) sample_admin
                     full_balance_db)) [SQLAlchemy_1, SQLAlchemy_2] =
     [Inl PendingRollbackError, Inl PendingRollbackError] \<and>
   map (\<lambda>orm. map (\<lambda>a. (sa_points_earned a, sa_is_graded a))
     (student_assignments (fst (grade_student_assignment orm 20 2000 1 (grade_data_of 1)
        sample_admin full_balance_db)))) [SQLAlchemy_1, SQLAlchemy_2] =
     [[(Some 1, True)], [(Some 1, True)]] \<and>
   map (\<lambda>orm. point_transactions (fst (grade_student_assignment orm 20 2000 1 (grade_data_of 1)
        sample_admin full_balance_db))) [SQLAlchemy_1, SQLAlchemy_2] =
     [point_transactions full_balance_db, point_transactions full_balance_db] \<and>
   map (\<lambda>orm. student_points (fst (grade_student_assignment orm 20 2000 1 (grade_data_of 1)
        sample_admin full_balance_db))) [SQLAlchemy_1, SQLAlchemy_2] =
     [student_points full_balance_db, student_points full_balance_db]"
  by (simp add: sample_defs model_defs highest_adjustment_def)

subsection \<open>The percentage of an assignment\<close>

lemma max_points_templates:
  "assignment_templates d' = assignment_templates d \<Longrightarrow> max_points d' a = max_points d a"
  by (simp add: max_points_def template_max_points_def template_of_def split: option.splits)

lemma consistent_templates:
  "assignment_templates d' = assignment_templates d \<Longrightarrow>
   percentage_grade_consistent d' a = percentage_grade_consistent d a"
  using max_points_templates [of d' d a] by (simp add: percentage_grade_consistent_def)

lemma consistent_fresh:
  "sa_points_earned a = None \<Longrightarrow> sa_percentage_grade a = None \<Longrightarrow>
   percentage_grade_consistent d a"
  by (simp add: percentage_grade_consistent_def split: sum.splits)

lemma set_store_assignment: "set (store_assignment a rs) \<subseteq> insert a (set rs)"
  by (induction rs) auto

lemma consistent_graded_object:
  assumes a2: "graded_object today gd graded_by d assignment = Inr a2"
    and m: "max_points d assignment = Inr m"
    and c: "percentage_grade_consistent d assignment"
  shows "percentage_grade_consistent d a2"
proof -
  have "max_points d a2 = Inr m"
    using m max_points_cong [OF graded_object_Inr(2) [OF a2] graded_object_Inr(5) [OF a2]]
    by simp
  moreover have "m \<le> 0 \<Longrightarrow> sa_percentage_grade assignment = None"
    using c m by (simp add: percentage_grade_consistent_def split: option.splits)
  ultimately show ?thesis
    using graded_object_percentage [OF a2 m] graded_object_Inr(6) [OF a2]
    by (simp add: percentage_grade_consistent_def)
qed

text \<open>
  What the shared part of the endpoints does to the templates and to the assignments:
  the templates stay, and the assignments stay or have the graded object stored.
\<close>

lemma record_grade_templates:
  "assignment_templates (fst (record_grade orm now gd d a2)) = assignment_templates d"
proof (cases "update_term_grade orm now a2 d")
  case (Inl e)
  then show ?thesis by (simp add: record_grade_def)
next
  case (Inr d1)
  with update_term_grade_frame(2) [OF Inr] show ?thesis
    by (simp add: record_grade_def Let_def award_step_frame)
qed

lemma record_grade_assignments:
  "student_assignments (fst (record_grade orm now gd d a2)) = student_assignments d \<or>
   student_assignments (fst (record_grade orm now gd d a2)) =
     store_assignment a2 (student_assignments d)"
proof (cases "update_term_grade orm now a2 d")
  case (Inl e)
  then show ?thesis by (simp add: record_grade_def)
next
  case (Inr d1)
  with update_term_grade_assignments [OF Inr] show ?thesis
    by (simp add: record_grade_def Let_def award_step_frame)
qed

lemma apply_grading_operation_cases:
  "apply_grading_operation orm d operation = d \<or>
   (\<exists>assignment m today gd graded_by now a2.
      assignment \<in> set (student_assignments d)
      \<and> max_points d assignment = Inr m
      \<and> graded_object today gd graded_by d assignment = Inr a2
      \<and> apply_grading_operation orm d operation = fst (record_grade orm now gd d a2))"
proof (cases operation)
  case (Grade_student_assignment r)
  show ?thesis
  proof (cases "apply_grading_operation orm d operation = d")
    case True
    then show ?thesis by simp
  next
    case False
    with Grade_student_assignment obtain assignment m a2 where
      "find (\<lambda>a. sa_id a = gr_assignment_id r) (student_assignments d) = Some assignment"
      "max_points d assignment = Inr m"
      "graded_object (gr_today r) (gr_grade_data r) (Some (user_id (gr_current_user r))) d
         assignment = Inr a2"
      "apply_grading_operation orm d operation =
         fst (record_grade orm (gr_now r) (gr_grade_data r) d a2)"
      by (auto simp: apply_grading_def grade_student_assignment_unfold
          split: sum.splits option.splits if_splits)
    moreover from this(1) have "assignment \<in> set (student_assignments d)"
      by (auto simp: find_Some_iff)
    ultimately show ?thesis by blast
  qed
next
  case (Grade_assignment_via_api r)
  show ?thesis
  proof (cases "apply_grading_operation orm d operation = d")
    case True
    then show ?thesis by simp
  next
    case False
    with Grade_assignment_via_api obtain assignment m a2 where
      "find (\<lambda>a. sa_id a = ag_assignment_id r) (student_assignments d) = Some assignment"
      "max_points d assignment = Inr m"
      "graded_object (ag_today r) (ag_grade_data r) None d assignment = Inr a2"
      "apply_grading_operation orm d operation =
         fst (record_grade orm (ag_now r) (ag_grade_data r) d a2)"
      by (auto simp: grade_assignment_via_api_unfold
          split: sum.splits option.splits if_splits)
    moreover from this(1) have "assignment \<in> set (student_assignments d)"
      by (auto simp: find_Some_iff)
    ultimately show ?thesis by blast
  qed
qed

lemma apply_grading_operation_consistent:
  assumes inv: "\<forall>a\<in>set (student_assignments d). percentage_grade_consistent d a"
  shows "assignment_templates (apply_grading_operation orm d operation) = assignment_templates d \<and>
         (\<forall>a\<in>set (student_assignments (apply_grading_operation orm d operation)).
            percentage_grade_consistent d a)"
  using apply_grading_operation_cases [of orm d operation]
proof
  assume "apply_grading_operation orm d operation = d"
  with inv show ?thesis by simp
next
  assume "\<exists>assignment m today gd graded_by now a2.
      assignment \<in> set (student_assignments d)
      \<and> max_points d assignment = Inr m
      \<and> graded_object today gd graded_by d assignment = Inr a2
      \<and> apply_grading_operation orm d operation = fst (record_grade orm now gd d a2)"
  then obtain assignment m today gd graded_by now a2 where
    mem: "assignment \<in> set (student_assignments d)"
    and m: "max_points d assignment = Inr m"
    and a2: "graded_object today gd graded_by d assignment = Inr a2"
    and res: "apply_grading_operation orm d operation = fst (record_grade orm now gd d a2)"
    by blast
  from mem inv have "percentage_grade_consistent d assignment" by blast
  from consistent_graded_object [OF a2 m this] have c2: "percentage_grade_consistent d a2" .
  have "set (student_assignments (apply_grading_operation orm d operation))
          \<subseteq> insert a2 (set (student_assignments d))"
    using record_grade_assignments [of orm now gd d a2]
      set_store_assignment [of a2 "student_assignments d"]
    by (auto simp: res)
  with inv c2
  have "\<forall>a\<in>set (student_assignments (apply_grading_operation orm d operation)).
          percentage_grade_consistent d a"
    by auto
  then show ?thesis by (simp add: res record_grade_templates)
qed

lemma apply_grading_operations_consistent:
  assumes "\<forall>a\<in>set (student_assignments d). percentage_grade_consistent d a"
  shows "\<forall>a\<in>set (student_assignments (apply_grading_operations orm d ops)).
           percentage_grade_consistent (apply_grading_operations orm d ops) a"
  using assms unfolding apply_grading_operations_def
proof (induction ops arbitrary: d)
  case Nil
  then show ?case by simp
next
  case (Cons operation ops)
  from apply_grading_operation_consistent [OF Cons.prems, of orm operation]
  have "\<forall>a\<in>set (student_assignments (apply_grading_operation orm d operation)).
          percentage_grade_consistent (apply_grading_operation orm d operation) a"
    using consistent_templates [of "apply_grading_operation orm d operation" d] by simp
  from Cons.IH [OF this] show ?case by simp
qed

text \<open>
  C9. Starting from assignments as they are created (no points, no percentage), after any
  run of grading operations, each a request to \<^verbatim>\<open>grade_student_assignment\<close> or to
  \<^verbatim>\<open>grade_assignment_via_api\<close>, on either line of the ORM, every stored assignment
  whose \<^verbatim>\<open>max_points\<close> can be read has a percentage exactly when it has points and
  \<^verbatim>\<open>max_points > 0\<close>, the percentage is then points / max_points * 100, and with
  \<^verbatim>\<open>max_points <= 0\<close> the computation returns no value (and does not raise).
\<close>

theorem percentage_grade_defined_iff:
  assumes "\<forall>a\<in>set (student_assignments d).
             sa_points_earned a = None \<and> sa_percentage_grade a = None"
  shows "\<forall>a\<in>set (student_assignments (apply_grading_operations orm d ops)). \<forall>m.
           max_points (apply_grading_operations orm d ops) a = Inr m \<longrightarrow>
             (sa_percentage_grade a \<noteq> None \<longleftrightarrow> sa_points_earned a \<noteq> None \<and> 0 < m) \<and>
             (\<forall>p. sa_points_earned a = Some p \<and> 0 < m \<longrightarrow>
                    sa_percentage_grade a = Some (p / of_int m * 100)) \<and>
             (m \<le> 0 \<longrightarrow>
                calculate_percentage_grade (apply_grading_operations orm d ops) a = Inr (a, None))"
proof (intro ballI allI impI)
  fix a m
  assume a: "a \<in> set (student_assignments (apply_grading_operations orm d ops))"
    and m: "max_points (apply_grading_operations orm d ops) a = Inr m"
  from assms have "\<forall>a\<in>set (student_assignments d). percentage_grade_consistent d a"
    by (simp add: consistent_fresh)
  from apply_grading_operations_consistent [OF this, of orm ops] a
  have "percentage_grade_consistent (apply_grading_operations orm d ops) a" by blast
  with m show "(sa_percentage_grade a \<noteq> None \<longleftrightarrow> sa_points_earned a \<noteq> None \<and> 0 < m) \<and>
             (\<forall>p. sa_points_earned a = Some p \<and> 0 < m \<longrightarrow>
                    sa_percentage_grade a = Some (p / of_int m * 100)) \<and>
             (m \<le> 0 \<longrightarrow>
                calculate_percentage_grade (apply_grading_operations orm d ops) a = Inr (a, None))"
    by (auto simp: percentage_grade_consistent_def calculate_percentage_grade_def
        split: option.splits)
qed

theorem percentage_grade_defined_iff_witness:
  "map (\<lambda>a. (sa_points_earned a, sa_percentage_grade a)) (student_assignments sample_db)
     = [(None, None)] \<and>
   map (\<lambda>a. (sa_points_earned a, sa_percentage_grade a)) (student_assignments zero_max_db)
     = [(None, None)] \<and>
   map (\<lambda>a. (sa_points_earned a, sa_percentage_grade a, sa_graded_by a, max_points sample_db a))
     (student_assignments
        (apply_grading_operations SQLAlchemy_1 sample_db
           [Grade_assignment_via_api (api_grade_request 85),
            Grade_student_assignment (grade_request 61)]))
     = [(Some 61, Some 61, Some 1, Inr 100)] \<and>
   map (\<lambda>a. (sa_points_earned a, sa_percentage_grade a, sa_graded_by a, max_points zero_max_db a))
     (student_assignments
        (apply_grading_operations SQLAlchemy_2 zero_max_db
           [Grade_student_assignment (grade_request 0),
            Grade_assignment_via_api (api_grade_request 0)]))
     = [(Some 0, None, None, Inr 0)]"
  using percentage_grade_defined_iff
      [of sample_db SQLAlchemy_1
          "[Grade_assignment_via_api (api_grade_request 85),
            Grade_student_assignment (grade_request 61)]"]
    percentage_grade_defined_iff
      [of zero_max_db SQLAlchemy_2
          "[Grade_student_assignment (grade_request 0),
            Grade_assignment_via_api (api_grade_request 0)]"]
  by (simp add: sample_defs model_defs apply_grading_operations_def zero_max_db_def)

subsection \<open>Term-grade recalculation: the finalized columns\<close>

lemma store_term_grade_finals:
  assumes "\<And>x. find (\<lambda>r. stg_student_id r = stg_student_id g
                         \<and> stg_term_subject_id r = stg_term_subject_id g) rows = Some x
             \<Longrightarrow> final_fields g = final_fields x"
  shows "prefix (map final_fields rows) (map final_fields (store_term_grade g rows))"
  using assms by (induction rows) auto

lemma final_fields_current_update [simp]:
  "final_fields (g\<lparr>current_points_earned := a\<rparr>) = final_fields g"
  "final_fields (g\<lparr>current_points_possible := b\<rparr>) = final_fields g"
  "final_fields (g\<lparr>current_percentage := c\<rparr>) = final_fields g"
  "final_fields (g\<lparr>current_letter_grade := l\<rparr>) = final_fields g"
  "final_fields (g\<lparr>assignments_completed := n\<rparr>) = final_fields g"
  "final_fields (g\<lparr>assignments_total := k\<rparr>) = final_fields g"
  "final_fields (g\<lparr>last_calculated := t\<rparr>) = final_fields g"
  by (simp_all add: final_fields_def)

lemma find_term_grade_key:
  "find (\<lambda>r. stg_student_id r = s \<and> stg_term_subject_id r = t) rows = Some x \<Longrightarrow>
   stg_student_id x = s \<and> stg_term_subject_id x = t"
  by (induction rows) (auto split: if_splits)

lemma calculate_current_grade_Inr:
  "calculate_current_grade now g = Inr g' \<Longrightarrow>
   stg_student_id g' = stg_student_id g \<and> stg_term_subject_id g' = stg_term_subject_id g
   \<and> final_fields g' = final_fields g"
  by (auto simp: calculate_current_grade_def split: option.splits if_splits)

lemma update_term_grade_unfold:
  "update_term_grade orm now self d =
     (if \<not> sa_is_graded self \<or> sa_points_earned self = None \<or> sa_points_earned self = Some 0
      then Inr d
      else
        (case find term_is_active (terms d) of
           None \<Rightarrow> Inr d
         | Some active_term \<Rightarrow>
             (case template_of d self of
                None \<Rightarrow> Inl AttributeError
              | Some self_template \<Rightarrow>
                  (case find (\<lambda>ts. ts_term_id ts = term_id active_term
                                    \<and> ts_subject_id ts = tmpl_subject_id self_template)
                          (term_subjects d) of
                     None \<Rightarrow> Inr d
                   | Some term_subject \<Rightarrow>
                       if orm = SQLAlchemy_2 then Inl ArgumentError
                       else
                       Inr (d\<lparr>student_assignments :=
                                store_assignment self (student_assignments d),
                              student_term_grades :=
                                store_term_grade
                                  (recalculated now d (sa_student_id self)
                                     (tmpl_subject_id self_template) active_term
                                     (term_grade_row (student_term_grades d)
                                        (sa_student_id self) (ts_id term_subject)))
                                  (student_term_grades d)\<rparr>)))))"
  by (simp add: update_term_grade_def recalculated_def term_grade_row_def Let_def
      calculate_current_grade_def split: option.splits)

lemma term_grade_row_key:
  "stg_student_id (term_grade_row rows s t) = s"
  "stg_term_subject_id (term_grade_row rows s t) = t"
  by (auto simp: term_grade_row_def new_StudentTermGrade_def
      dest: find_term_grade_key split: option.splits)

lemma term_grade_row_find:
  "find (\<lambda>r. stg_student_id r = s \<and> stg_term_subject_id r = t) rows = Some x \<Longrightarrow>
   term_grade_row rows s t = x"
  by (simp add: term_grade_row_def)

lemma recalculated_key:
  "stg_student_id (recalculated now d s j t x) = stg_student_id x"
  "stg_term_subject_id (recalculated now d s j t x) = stg_term_subject_id x"
  "final_fields (recalculated now d s j t x) = final_fields x"
  by (simp_all add: recalculated_def Let_def split: option.splits)

lemma update_term_grade_finals:
  assumes "update_term_grade orm now self d = Inr d'"
  shows "prefix (map final_fields (student_term_grades d))
           (map final_fields (student_term_grades d'))"
  using assms
  by (auto simp: update_term_grade_unfold recalculated_key term_grade_row_key term_grade_row_find
      intro!: store_term_grade_finals
      split: option.splits if_splits)

lemma run_update_term_grade_finals:
  "prefix (map final_fields (student_term_grades d))
     (map final_fields (student_term_grades (run_update_term_grade orm now self d)))"
  by (auto simp: run_update_term_grade_def update_term_grade_finals split: sum.splits)

lemma grade_term_subject_fst:
  "fst (grade_term_subject now d t st acc ts) = write_term_grade now d t (fst acc) (st, ts)"
  by (cases acc) (simp add: write_term_grade_def grade_term_subject_def Let_def)

lemma foldl_grade_term_subject:
  "fst (foldl (grade_term_subject now d t st) acc tss) =
     foldl (write_term_grade now d t) (fst acc) (map (Pair st) tss)"
  by (induction tss arbitrary: acc) (simp_all add: grade_term_subject_fst)

lemma grade_student_fst:
  "fst (grade_student now d t tss acc st) =
     foldl (write_term_grade now d t) (fst acc) (map (Pair st) tss)"
proof (cases acc)
  case (fields grades c n)
  obtain g' c' where r: "foldl (grade_term_subject now d t st) (grades, c) tss = (g', c')"
    by (cases "foldl (grade_term_subject now d t st) (grades, c) tss")
  from foldl_grade_term_subject [of now d t st "(grades, c)" tss] r
  have "g' = foldl (write_term_grade now d t) grades (map (Pair st) tss)" by simp
  with fields r show ?thesis by (simp add: grade_student_def)
qed

lemma foldl_grade_student:
  "fst (foldl (grade_student now d t tss) acc students) =
     foldl (write_term_grade now d t) (fst acc) (grading_pairs students tss)"
  by (induction students arbitrary: acc) (simp_all add: grade_student_fst grading_pairs_def)

lemma calculate_student_term_grades_rows:
  "student_term_grades (fst (calculate_student_term_grades now tid student_id d)) =
     (let d1 = fst (auto_link_subjects_to_terms d (Some tid))
      in case find (\<lambda>x. term_id x = tid) (terms d1) of
           None \<Rightarrow> student_term_grades d1
         | Some the_term \<Rightarrow>
             foldl (write_term_grade now d1 the_term) (student_term_grades d1)
               (grading_pairs (service_students d1 student_id)
                  (filter (\<lambda>l. ts_term_id l = tid) (term_subjects d1))))"
proof -
  let ?d1 = "fst (auto_link_subjects_to_terms d (Some tid))"
  show ?thesis
  proof (cases "find (\<lambda>x. term_id x = tid) (terms ?d1)")
    case None
    then show ?thesis by (simp add: calculate_student_term_grades_def Let_def)
  next
    case (Some the_term)
    let ?tss = "filter (\<lambda>l. ts_term_id l = tid) (term_subjects ?d1)"
    let ?sts = "service_students ?d1 student_id"
    obtain g c n where r: "foldl (grade_student now ?d1 the_term ?tss)
        (student_term_grades ?d1, 0, 0) ?sts = (g, c, n)"
      by (cases "foldl (grade_student now ?d1 the_term ?tss) (student_term_grades ?d1, 0, 0) ?sts")
    from foldl_grade_student [of now ?d1 the_term ?tss "(student_term_grades ?d1, 0, 0)" ?sts] r
    have "g = foldl (write_term_grade now ?d1 the_term) (student_term_grades ?d1)
                (grading_pairs ?sts ?tss)" by simp
    with Some r show ?thesis
      by (simp add: calculate_student_term_grades_def Let_def service_students_def)
  qed
qed

lemma auto_link_frame:
  "users (fst (auto_link_subjects_to_terms d tid)) = users d"
  "assignment_templates (fst (auto_link_subjects_to_terms d tid)) = assignment_templates d"
  "student_assignments (fst (auto_link_subjects_to_terms d tid)) = student_assignments d"
  "terms (fst (auto_link_subjects_to_terms d tid)) = terms d"
  "student_term_grades (fst (auto_link_subjects_to_terms d tid)) = student_term_grades d"
  by (simp_all add: auto_link_subjects_to_terms_def Let_def split: prod.splits)

lemma write_term_grade_unfold:
  "write_term_grade now d t grades (st, ts) =
     (if graded_assignments_of d t (user_id st) (ts_subject_id ts) = [] then grades
      else store_term_grade
             ((term_grade_row grades (user_id st) (ts_id ts))
                \<lparr>current_points_earned :=
                   Some (sum_list (map (\<lambda>a. case sa_points_earned a of None \<Rightarrow> 0 | Some p \<Rightarrow> p)
                      (graded_assignments_of d t (user_id st) (ts_subject_id ts)))),
                 current_points_possible :=
                   Some (of_int (sum_list (map (\<lambda>a. case max_points d a of Inr m \<Rightarrow> m | Inl e \<Rightarrow> 0)
                      (graded_assignments_of d t (user_id st) (ts_subject_id ts))))),
                 current_percentage :=
                   (if sum_list (map (\<lambda>a. case max_points d a of Inr m \<Rightarrow> m | Inl e \<Rightarrow> 0)
                      (graded_assignments_of d t (user_id st) (ts_subject_id ts))) > 0
                    then Some (sum_list (map (\<lambda>a. case sa_points_earned a of None \<Rightarrow> 0 | Some p \<Rightarrow> p)
                      (graded_assignments_of d t (user_id st) (ts_subject_id ts)))
                      / of_int (sum_list (map (\<lambda>a. case max_points d a of Inr m \<Rightarrow> m | Inl e \<Rightarrow> 0)
                      (graded_assignments_of d t (user_id st) (ts_subject_id ts)))) * 100)
                    else None),
                 current_letter_grade :=
                   calculate_letter_grade
                   (if sum_list (map (\<lambda>a. case max_points d a of Inr m \<Rightarrow> m | Inl e \<Rightarrow> 0)
                      (graded_assignments_of d t (user_id st) (ts_subject_id ts))) > 0
                    then Some (sum_list (map (\<lambda>a. case sa_points_earned a of None \<Rightarrow> 0 | Some p \<Rightarrow> p)
                      (graded_assignments_of d t (user_id st) (ts_subject_id ts)))
                      / of_int (sum_list (map (\<lambda>a. case max_points d a of Inr m \<Rightarrow> m | Inl e \<Rightarrow> 0)
                      (graded_assignments_of d t (user_id st) (ts_subject_id ts)))) * 100)
                    else None),
                 assignments_completed :=
                   int (length (graded_assignments_of d t (user_id st) (ts_subject_id ts))),
                 assignments_total :=
                   int (length (graded_assignments_of d t (user_id st) (ts_subject_id ts))),
                 last_calculated := Some now\<rparr>)
             grades)"
  by (simp add: write_term_grade_def grade_term_subject_def Let_def term_grade_row_def)

lemma write_term_grade_finals:
  "prefix (map final_fields grades) (map final_fields (write_term_grade now d t grades p))"
  by (cases p)
     (auto simp: write_term_grade_unfold term_grade_row_key term_grade_row_find
        intro!: store_term_grade_finals)

lemma foldl_write_term_grade_finals:
  "prefix (map final_fields grades)
     (map final_fields (foldl (write_term_grade now d t) grades ps))"
proof (induction ps arbitrary: grades)
  case Nil
  show ?case by simp
next
  case (Cons p ps)
  have "prefix (map final_fields grades)
          (map final_fields (write_term_grade now d t grades p))"
    by (rule write_term_grade_finals)
  also have "prefix \<dots> (map final_fields
      (foldl (write_term_grade now d t) (write_term_grade now d t grades p) ps))"
    by (rule Cons.IH)
  finally show ?case by simp
qed

lemma calculate_student_term_grades_finals:
  "prefix (map final_fields (student_term_grades d))
     (map final_fields
        (student_term_grades (fst (calculate_student_term_grades now tid student_id d))))"
  using foldl_write_term_grade_finals
  by (simp add: calculate_student_term_grades_rows Let_def auto_link_frame split: option.splits)

lemma prefix_map_nth:
  assumes "prefix (map f xs) (map f ys)" and "i < length xs"
  shows "i < length ys \<and> f (ys ! i) = f (xs ! i)"
proof -
  from assms obtain zs where zs: "map f ys = map f xs @ zs" by (auto simp: prefix_def)
  then have "length ys = length xs + length zs" by (metis length_append length_map)
  with assms(2) have i: "i < length ys" by simp
  from zs assms(2) have "map f ys ! i = map f xs ! i" by (simp add: nth_append)
  with i assms(2) show ?thesis by simp
qed

lemma recalculate_finals:
  "prefix (map final_fields (student_term_grades d))
     (map final_fields (student_term_grades (recalculate orm d r)))"
  by (cases r) (simp_all add: run_update_term_grade_finals calculate_student_term_grades_finals)

lemma recalculations_finals:
  "prefix (map final_fields (student_term_grades d))
     (map final_fields (student_term_grades (recalculations orm d rs)))"
  unfolding recalculations_def
proof (induction rs arbitrary: d)
  case Nil
  show ?case by simp
next
  case (Cons r rs)
  have "prefix (map final_fields (student_term_grades d))
          (map final_fields (student_term_grades (recalculate orm d r)))"
    by (rule recalculate_finals)
  also have "prefix \<dots> (map final_fields
      (student_term_grades (foldl (recalculate orm) (recalculate orm d r) rs)))"
    by (rule Cons.IH)
  finally show ?case by simp
qed

text \<open>\<^verbatim>\<open>finalize_grade\<close> sets \<^verbatim>\<open>is_finalized\<close>.\<close>

lemma finalize_grade_is_finalized:
  "is_finalized (finalize_grade finalizer_id today g)"
  by (simp add: finalize_grade_def)

text \<open>
  C5. A term-grade row with \<^verbatim>\<open>is_finalized\<close> set, as \<^verbatim>\<open>finalize_grade\<close> leaves
  it, keeps its \<^verbatim>\<open>final_*\<close> columns, \<^verbatim>\<open>is_finalized\<close>, \<^verbatim>\<open>finalized_date\<close>
  and \<^verbatim>\<open>finalized_by\<close> through every run of recalculation calls, each of them
  \<^verbatim>\<open>update_term_grade\<close> on some assignment object or
  \<^verbatim>\<open>calculate_student_term_grades\<close> for some term and student, on either line of the
  ORM (the calls may rewrite its \<^verbatim>\<open>current_*\<close> columns).
\<close>

theorem finalized_fields_frozen:
  assumes "i < length (student_term_grades d)"
    and "is_finalized (student_term_grades d ! i)"
  shows "i < length (student_term_grades (recalculations orm d rs)) \<and>
         final_fields (student_term_grades (recalculations orm d rs) ! i) =
           final_fields (student_term_grades d ! i) \<and>
         is_finalized (student_term_grades (recalculations orm d rs) ! i)"
proof -
  from prefix_map_nth [OF recalculations_finals assms(1), of orm rs]
  have *: "i < length (student_term_grades (recalculations orm d rs))"
    "final_fields (student_term_grades (recalculations orm d rs) ! i) =
       final_fields (student_term_grades d ! i)"
    by simp_all
  from *(2) assms(2) have "is_finalized (student_term_grades (recalculations orm d rs) ! i)"
    by (simp add: final_fields_def)
  with * show ?thesis by simp
qed

lemmas service_defs = calculate_student_term_grades_def auto_link_subjects_to_terms_def
  link_term_def completed_in_term_def subject_ids_of_def next_term_subject_id_def
  graded_assignments_of_def grade_term_subject_def grade_student_def
  calculate_letter_grade_def

theorem finalized_fields_frozen_witness:
  "0 < length (student_term_grades finalized_db) \<and>
   is_finalized (student_term_grades finalized_db ! 0) \<and>
   map (\<lambda>g. (current_points_earned g, final_fields g)) (student_term_grades finalized_db) =
     [(Some 40, Some 40, Some 50, Some 80, Some ''B-'', True, Some 50, Some 1)] \<and>
   map (\<lambda>g. (current_points_earned g, final_fields g))
     (student_term_grades
        (recalculations SQLAlchemy_1 finalized_db
           [Update_term_grade 2000 graded_assignment,
            Calculate_student_term_grades 2001 1 None,
            Update_term_grade 2002 graded_assignment])) =
     [(Some 85, Some 40, Some 50, Some 80, Some ''B-'', True, Some 50, Some 1)]"
  using finalized_fields_frozen
    [of 0 finalized_db SQLAlchemy_1
        "[Update_term_grade 2000 graded_assignment,
          Calculate_student_term_grades 2001 1 None,
          Update_term_grade 2002 graded_assignment]"]
  by (simp add: finalized_db_def graded_assignment_def sample_defs model_defs service_defs
      recalculations_def run_update_term_grade_def finalize_grade_def final_fields_def)

subsection \<open>Term-grade recalculation: idempotence\<close>

lemma current_fields_recalculated:
  "current_fields (recalculated now2 d s j t (recalculated now1 d s j t x)) =
     current_fields (recalculated now1 d s j t x)"
  by (simp add: recalculated_def current_fields_def Let_def split: option.splits)

lemma template_of_db:
  "assignment_templates d' = assignment_templates d \<Longrightarrow> template_of d' a = template_of d a"
  by (simp add: template_of_def)

lemma term_scope_db:
  assumes "assignment_templates d' = assignment_templates d"
    and "student_assignments d' = student_assignments d"
  shows "term_scope d' s j t = term_scope d s j t"
  using assms template_of_db [OF assms(1)] by (simp add: term_scope_def)

lemma coalesce_max_points_db:
  assumes "assignment_templates d' = assignment_templates d"
  shows "coalesce_max_points d' = coalesce_max_points d"
  using template_of_db [OF assms] by (auto simp: coalesce_max_points_def fun_eq_iff split: option.splits)

lemma recalculated_db:
  assumes "assignment_templates d' = assignment_templates d"
    and "student_assignments d' = student_assignments d"
  shows "recalculated now d' s j t x = recalculated now d s j t x"
  using term_scope_db [OF assms, of s j t] coalesce_max_points_db [OF assms(1)]
  by (simp add: recalculated_def Let_def split: option.splits)

lemma find_store_term_grade:
  "stg_student_id g = s \<Longrightarrow> stg_term_subject_id g = t \<Longrightarrow>
   find (\<lambda>r. stg_student_id r = s \<and> stg_term_subject_id r = t) (store_term_grade g rows) = Some g"
  by (induction rows) auto

lemma map_current_fields_store_twice:
  "stg_student_id g' = stg_student_id g \<Longrightarrow> stg_term_subject_id g' = stg_term_subject_id g \<Longrightarrow>
   current_fields g' = current_fields g \<Longrightarrow>
   map current_fields (store_term_grade g' (store_term_grade g rows)) =
     map current_fields (store_term_grade g rows)"
  by (induction rows) auto

text \<open>
  \<^verbatim>\<open>update_term_grade\<close> run again on the same object: when the first run has left the
  stored assignments as they were, that is when the object held no change that was not yet
  flushed, the second run writes the same six columns.
\<close>

lemma update_term_grade_idempotent:
  assumes r1: "update_term_grade orm now1 self d = Inr d1"
    and same: "student_assignments d1 = student_assignments d"
  shows "\<exists>d2. update_term_grade orm now2 self d1 = Inr d2 \<and>
           map current_fields (student_term_grades d2) =
             map current_fields (student_term_grades d1)"
proof (cases "\<not> sa_is_graded self \<or> sa_points_earned self = None \<or> sa_points_earned self = Some 0")
  case True
  from True r1 show ?thesis by (auto simp: update_term_grade_unfold)
next
  case False
  then obtain p where early: "sa_is_graded self" "sa_points_earned self = Some p" "p \<noteq> 0"
    by auto
  show ?thesis
  proof (cases "find term_is_active (terms d)")
    case None
    from early None r1 show ?thesis by (auto simp: update_term_grade_unfold)
  next
    case (Some t)
    note active = this
    show ?thesis
    proof (cases "template_of d self")
      case None
      from early active None r1 show ?thesis by (simp add: update_term_grade_unfold)
    next
      case (Some tm)
      note tmpl = this
      show ?thesis
      proof (cases "find (\<lambda>ts. ts_term_id ts = term_id t \<and> ts_subject_id ts = tmpl_subject_id tm)
                      (term_subjects d)")
        case None
        from early active tmpl None r1 show ?thesis by (auto simp: update_term_grade_unfold)
      next
        case (Some l)
        let ?x = "term_grade_row (student_term_grades d) (sa_student_id self) (ts_id l)"
        let ?g1 = "recalculated now1 d (sa_student_id self) (tmpl_subject_id tm) t ?x"
        from early active tmpl Some r1 have orm: "orm \<noteq> SQLAlchemy_2"
          by (auto simp: update_term_grade_unfold)
        from early active tmpl Some r1 orm
        have d1: "d1 = d\<lparr>student_assignments := store_assignment self (student_assignments d),
                        student_term_grades := store_term_grade ?g1 (student_term_grades d)\<rparr>"
          by (simp add: update_term_grade_unfold)
        have fr: "terms d1 = terms d" "term_subjects d1 = term_subjects d"
          "assignment_templates d1 = assignment_templates d"
          "student_term_grades d1 = store_term_grade ?g1 (student_term_grades d)"
          by (simp_all add: d1)
        have key: "stg_student_id ?g1 = sa_student_id self" "stg_term_subject_id ?g1 = ts_id l"
          by (simp_all add: recalculated_key term_grade_row_key)
        have row: "term_grade_row (student_term_grades d1) (sa_student_id self) (ts_id l) = ?g1"
          using find_store_term_grade [OF key] by (simp add: fr term_grade_row_def)
        let ?g2 = "recalculated now2 d1 (sa_student_id self) (tmpl_subject_id tm) t ?g1"
        have g2: "?g2 = recalculated now2 d (sa_student_id self) (tmpl_subject_id tm) t ?g1"
          by (rule recalculated_db [OF fr(3) same])
        have r2: "update_term_grade orm now2 self d1 =
                    Inr (d1\<lparr>student_assignments := store_assignment self (student_assignments d1),
                            student_term_grades := store_term_grade ?g2 (student_term_grades d1)\<rparr>)"
          using early active tmpl Some orm template_of_db [OF fr(3), of self]
          by (simp add: update_term_grade_unfold fr(1,2) row)
        have "map current_fields (store_term_grade ?g2 (store_term_grade ?g1 (student_term_grades d)))
                = map current_fields (store_term_grade ?g1 (student_term_grades d))"
          by (rule map_current_fields_store_twice)
             (simp_all add: g2 recalculated_key current_fields_recalculated)
        with r2 show ?thesis by (simp add: fr(4))
      qed
    qed
  qed
qed

lemma link_term_fst: "fst (link_term d acc t) = fst acc @ missing_links d t"
  by (cases acc) (simp add: link_term_def missing_links_def Let_def)

lemma foldl_link_term:
  "fst (foldl (link_term d) acc ts) = fst acc @ concat (map (missing_links d) ts)"
  by (induction ts arbitrary: acc) (simp_all add: link_term_fst)

lemma auto_link_fst:
  "fst (auto_link_subjects_to_terms d tid) =
     d\<lparr>term_subjects :=
         insert_term_subjects (concat (map (missing_links d) (selected_terms d tid)))
           (term_subjects d)\<rparr>"
proof -
  obtain p a b where r: "foldl (link_term d) ([], 0, 0) (selected_terms d tid) = (p, a, b)"
    by (cases "foldl (link_term d) ([], 0, 0) (selected_terms d tid)")
  from foldl_link_term [of d "([], 0, 0)" "selected_terms d tid"] r
  have "p = concat (map (missing_links d) (selected_terms d tid))" by simp
  with r show ?thesis
    by (simp add: auto_link_subjects_to_terms_def selected_terms_def Let_def)
qed

lemma link_keys_insert_list:
  "map link_key (insert_term_subjects ps rows) = map link_key rows @ ps"
proof (induction ps arbitrary: rows)
  case Nil
  show ?case by simp
next
  case (Cons p ps)
  obtain t s where p: "p = (t, s)" by (cases p)
  show ?case unfolding p insert_term_subjects.simps Cons.IH
    by (simp add: link_key_def)
qed

lemma link_keys_insert:
  "set (map link_key (insert_term_subjects ps rows)) = set (map link_key rows) \<union> set ps"
  unfolding link_keys_insert_list by simp

lemma find_link_None:
  "find (\<lambda>l. ts_term_id l = t \<and> ts_subject_id l = s) rows = None
     \<longleftrightarrow> (t, s) \<notin> set (map link_key rows)"
  by (induction rows) (auto simp: link_key_def)

lemma fold_max_ge: "(a::int) \<le> fold max xs a"
proof (induction xs arbitrary: a)
  case Nil
  show ?case by simp
next
  case (Cons y ys)
  have "a \<le> max y a" by simp
  also have "\<dots> \<le> fold max ys (max y a)" by (rule Cons.IH)
  finally show ?case by simp
qed

lemma fold_max_mem: "(x::int) \<in> set xs \<Longrightarrow> x \<le> fold max xs a"
proof (induction xs arbitrary: a)
  case Nil
  then show ?case by simp
next
  case (Cons y ys)
  show ?case
  proof (cases "x = y")
    case True
    have "y \<le> max y a" by simp
    also have "\<dots> \<le> fold max ys (max y a)" by (rule fold_max_ge)
    finally show ?thesis using True by simp
  next
    case False
    with Cons.prems have "x \<in> set ys" by simp
    from Cons.IH [OF this] show ?thesis by simp
  qed
qed

lemma next_term_subject_id_fresh: "next_term_subject_id rows \<notin> set (map ts_id rows)"
proof
  assume "next_term_subject_id rows \<in> set (map ts_id rows)"
  from fold_max_mem [OF this, of 0] show False by (simp add: next_term_subject_id_def)
qed

lemma insert_term_subjects_distinct:
  "distinct (map ts_id rows) \<Longrightarrow> distinct (map ts_id (insert_term_subjects ps rows))"
proof (induction ps arbitrary: rows)
  case Nil
  then show ?case by simp
next
  case (Cons p ps)
  obtain t s where p: "p = (t, s)" by (cases p)
  let ?new = "\<lparr>ts_id = next_term_subject_id rows, ts_term_id = t, ts_subject_id = s\<rparr>"
  have "distinct (map ts_id (rows @ [?new]))"
    using Cons.prems next_term_subject_id_fresh [of rows] by simp
  from Cons.IH [OF this] show ?case by (simp add: p)
qed

lemma subject_ids_db:
  assumes "assignment_templates d' = assignment_templates d"
    and "student_assignments d' = student_assignments d"
  shows "subject_ids_of d' (completed_in_term d' t) = subject_ids_of d (completed_in_term d t)"
  using assms template_of_db [OF assms(1)]
  by (simp add: subject_ids_of_def completed_in_term_def)

lemma missing_links_none:
  assumes tm: "assignment_templates d' = assignment_templates d"
    and sa: "student_assignments d' = student_assignments d"
    and ts: "term_subjects d' =
               insert_term_subjects (concat (map (missing_links d) sel)) (term_subjects d)"
    and t: "t \<in> set sel"
  shows "missing_links d' t = []"
proof -
  have "(term_id t, s) \<in> set (map link_key (term_subjects d'))"
    if "s \<in> set (subject_ids_of d (completed_in_term d t))" for s
  proof (cases "(term_id t, s) \<in> set (map link_key (term_subjects d))")
    case True
    then show ?thesis unfolding ts link_keys_insert by simp
  next
    case False
    with that have "(term_id t, s) \<in> set (missing_links d t)"
      by (auto simp: missing_links_def find_link_None)
    with t have "(term_id t, s) \<in> set (concat (map (missing_links d) sel))" by auto
    then show ?thesis unfolding ts link_keys_insert by simp
  qed
  then show ?thesis
    using subject_ids_db [OF tm sa, of t]
    by (auto simp: missing_links_def find_link_None filter_empty_conv)
qed

lemma auto_link_again:
  assumes tm: "assignment_templates d' = assignment_templates d"
    and sa: "student_assignments d' = student_assignments d"
    and te: "terms d' = terms d"
    and ts: "term_subjects d' = term_subjects (fst (auto_link_subjects_to_terms d tid))"
  shows "fst (auto_link_subjects_to_terms d' tid) = d'"
proof -
  have sel: "selected_terms d' tid = selected_terms d tid"
    using te by (simp add: selected_terms_def split: option.splits)
  have ts': "term_subjects d' =
      insert_term_subjects (concat (map (missing_links d) (selected_terms d tid))) (term_subjects d)"
    using ts by (simp add: auto_link_fst)
  have "\<forall>t\<in>set (selected_terms d tid). missing_links d' t = []"
    using missing_links_none [OF tm sa ts'] by blast
  then have c: "concat (map (missing_links d') (selected_terms d tid)) = []"
    by simp
  show ?thesis unfolding auto_link_fst sel c by simp
qed

lemma write_term_grade_skip:
  "graded_assignments_of d t (user_id st) (ts_subject_id ts) = [] \<Longrightarrow>
   write_term_grade now d t rows (st, ts) = rows"
  by (simp add: write_term_grade_unfold)

lemma write_term_grade_store:
  assumes "graded_assignments_of d t (user_id st) (ts_subject_id ts) \<noteq> []"
  shows "\<exists>g. write_term_grade now d t rows (st, ts) = store_term_grade g rows
           \<and> stg_student_id g = user_id st \<and> stg_term_subject_id g = ts_id ts
           \<and> current_fields g = service_fields d t (user_id st) (ts_subject_id ts)"
  by (subst write_term_grade_unfold, simp only: assms if_False, rule exI, rule conjI, rule refl)
     (simp add: service_fields_def current_fields_def term_grade_row_key Let_def)

lemma find_store_term_grade_other:
  "\<not> (stg_student_id g = s \<and> stg_term_subject_id g = t) \<Longrightarrow>
   find (\<lambda>r. stg_student_id r = s \<and> stg_term_subject_id r = t) (store_term_grade g rows) =
     find (\<lambda>r. stg_student_id r = s \<and> stg_term_subject_id r = t) rows"
  by (induction rows) auto

lemma row_view_store_same:
  "find (\<lambda>r. stg_student_id r = stg_student_id g \<and> stg_term_subject_id r = stg_term_subject_id g)
     rows = Some x \<Longrightarrow>
   current_fields g = current_fields x \<Longrightarrow>
   map row_view (store_term_grade g rows) = map row_view rows"
  by (induction rows) (auto simp: row_view_def split: if_splits)

lemma find_row_view:
  "map row_view rows' = map row_view rows \<Longrightarrow>
   map_option current_fields
     (find (\<lambda>r. stg_student_id r = s \<and> stg_term_subject_id r = t) rows') =
   map_option current_fields
     (find (\<lambda>r. stg_student_id r = s \<and> stg_term_subject_id r = t) rows)"
proof (induction rows arbitrary: rows')
  case Nil
  then show ?case by simp
next
  case (Cons r rs)
  then obtain r' rs' where r': "rows' = r' # rs'" by (cases rows') auto
  with Cons.prems have h: "row_view r' = row_view r" and tl: "map row_view rs' = map row_view rs"
    by simp_all
  from h have k: "stg_student_id r' = stg_student_id r"
    "stg_term_subject_id r' = stg_term_subject_id r" "current_fields r' = current_fields r"
    by (simp_all add: row_view_def)
  from Cons.IH [OF tl] k show ?case
    by (simp add: r')
qed

lemma established_row_view:
  assumes "map row_view rows' = map row_view rows"
  shows "established d t rows' p = established d t rows p"
proof -
  let ?f = "\<lambda>rs. find (\<lambda>r. stg_student_id r = user_id (fst p)
                       \<and> stg_term_subject_id r = ts_id (snd p)) rs"
  from find_row_view [OF assms, of "user_id (fst p)" "ts_id (snd p)"]
  have "map_option current_fields (?f rows') = map_option current_fields (?f rows)" .
  then show ?thesis
    by (cases "?f rows'"; cases "?f rows") (simp_all add: established_def)
qed

lemma write_established_same_view:
  assumes "established d t rows p"
  shows "map row_view (write_term_grade now d t rows p) = map row_view rows"
proof (cases p)
  case (Pair st ts)
  show ?thesis
  proof (cases "graded_assignments_of d t (user_id st) (ts_subject_id ts) = []")
    case True
    then show ?thesis by (simp add: Pair write_term_grade_skip)
  next
    case False
    from write_term_grade_store [OF False, of now rows] obtain g
      where w: "write_term_grade now d t rows (st, ts) = store_term_grade g rows"
        and k: "stg_student_id g = user_id st" "stg_term_subject_id g = ts_id ts"
        and c: "current_fields g = service_fields d t (user_id st) (ts_subject_id ts)"
      by blast
    from assms False Pair obtain x
      where x: "find (\<lambda>r. stg_student_id r = user_id st \<and> stg_term_subject_id r = ts_id ts)
                  rows = Some x"
        and cx: "current_fields x = service_fields d t (user_id st) (ts_subject_id ts)"
      by (auto simp: established_def split: option.splits)
    have "map row_view (store_term_grade g rows) = map row_view rows"
      by (rule row_view_store_same [of g rows x]) (simp_all add: k x c cx)
    then show ?thesis by (simp add: Pair w)
  qed
qed

lemma second_pass_same_view:
  "\<forall>p\<in>set ps. established d t rows p \<Longrightarrow>
   map row_view (foldl (write_term_grade now d t) rows ps) = map row_view rows"
proof (induction ps arbitrary: rows)
  case Nil
  show ?case by simp
next
  case (Cons p ps)
  have v: "map row_view (write_term_grade now d t rows p) = map row_view rows"
    using Cons.prems by (intro write_established_same_view) simp
  have "\<forall>q\<in>set ps. established d t (write_term_grade now d t rows p) q"
    using Cons.prems established_row_view [OF v] by simp
  from Cons.IH [OF this] v show ?case by simp
qed

lemma write_establishes:
  "established d t (write_term_grade now d t rows p) p"
proof (cases p)
  case (Pair st ts)
  show ?thesis
  proof (cases "graded_assignments_of d t (user_id st) (ts_subject_id ts) = []")
    case True
    then show ?thesis by (simp add: Pair established_def)
  next
    case False
    from write_term_grade_store [OF False, of now rows] obtain g
      where w: "write_term_grade now d t rows (st, ts) = store_term_grade g rows"
        and k: "stg_student_id g = user_id st" "stg_term_subject_id g = ts_id ts"
        and c: "current_fields g = service_fields d t (user_id st) (ts_subject_id ts)"
      by blast
    show ?thesis
      using find_store_term_grade [OF k, of rows] c
      by (simp add: Pair established_def w)
  qed
qed

lemma write_preserves_established:
  assumes e: "established d t rows q" and st: "same_target p q"
  shows "established d t (write_term_grade now d t rows p) q"
proof (cases "user_id (fst p) = user_id (fst q) \<and> ts_id (snd p) = ts_id (snd q)")
  case True
  with st have "ts_subject_id (snd p) = ts_subject_id (snd q)" by (simp add: same_target_def)
  with True have "established d t rows' p = established d t rows' q" for rows'
    by (simp add: established_def split: option.splits)
  with write_establishes [of d t now rows p] show ?thesis by simp
next
  case different: False
  obtain st ts where p: "p = (st, ts)" by (cases p)
  show ?thesis
  proof (cases "graded_assignments_of d t (user_id st) (ts_subject_id ts) = []")
    case True
    with e show ?thesis by (simp add: p write_term_grade_skip)
  next
    case False
    from write_term_grade_store [OF False, of now rows] obtain g
      where w: "write_term_grade now d t rows (st, ts) = store_term_grade g rows"
        and k: "stg_student_id g = user_id st" "stg_term_subject_id g = ts_id ts"
      by blast
    have "\<not> (stg_student_id g = user_id (fst q) \<and> stg_term_subject_id g = ts_id (snd q))"
      using different k by (simp add: p)
    from find_store_term_grade_other [OF this, of rows] e show ?thesis
      by (simp add: established_def p w)
  qed
qed

lemma foldl_preserves_established:
  "established d t rows q \<Longrightarrow> \<forall>p\<in>set ps. same_target p q \<Longrightarrow>
   established d t (foldl (write_term_grade now d t) rows ps) q"
proof (induction ps arbitrary: rows)
  case Nil
  then show ?case by simp
next
  case (Cons p ps)
  have "established d t (write_term_grade now d t rows p) q"
    using Cons.prems by (intro write_preserves_established) simp_all
  from Cons.IH [OF this] Cons.prems(2) show ?case by simp
qed

lemma first_pass_establishes:
  "\<forall>p\<in>set ps. \<forall>q\<in>set ps. same_target p q \<Longrightarrow>
   \<forall>q\<in>set ps. established d t (foldl (write_term_grade now d t) rows ps) q"
proof (induction ps arbitrary: rows)
  case Nil
  show ?case by simp
next
  case (Cons p ps)
  have tail: "\<forall>a\<in>set ps. \<forall>b\<in>set ps. same_target a b" using Cons.prems by simp
  have "established d t (foldl (write_term_grade now d t) (write_term_grade now d t rows p) ps) p"
    using Cons.prems
    by (intro foldl_preserves_established write_establishes) simp
  with Cons.IH [OF tail, of "write_term_grade now d t rows p"] show ?case by simp
qed

lemma grading_pairs_same_target:
  assumes "distinct (map ts_id subjects)"
  shows "\<forall>p\<in>set (grading_pairs students subjects).
           \<forall>q\<in>set (grading_pairs students subjects). same_target p q"
proof (intro ballI)
  fix p q
  assume "p \<in> set (grading_pairs students subjects)" "q \<in> set (grading_pairs students subjects)"
  then have "snd p \<in> set subjects" "snd q \<in> set subjects"
    by (auto simp: grading_pairs_def)
  with assms have "ts_id (snd p) = ts_id (snd q) \<Longrightarrow> snd p = snd q"
    by (meson distinct_map inj_onD)
  then show "same_target p q" by (auto simp: same_target_def)
qed

lemma graded_assignments_of_db:
  assumes "assignment_templates d' = assignment_templates d"
    and "student_assignments d' = student_assignments d"
  shows "graded_assignments_of d' t s j = graded_assignments_of d t s j"
  using assms template_of_db [OF assms(1)] by (simp add: graded_assignments_of_def)

lemma max_points_db:
  assumes "assignment_templates d' = assignment_templates d"
  shows "max_points d' a = max_points d a"
  using template_of_db [OF assms, of a]
  by (simp add: max_points_def template_max_points_def split: option.splits)

lemma write_term_grade_db:
  assumes tm: "assignment_templates d' = assignment_templates d"
    and sa: "student_assignments d' = student_assignments d"
  shows "write_term_grade now d' t rows p = write_term_grade now d t rows p"
proof -
  have m: "(\<lambda>a. case max_points d' a of Inr m \<Rightarrow> m | Inl e \<Rightarrow> 0) =
           (\<lambda>a. case max_points d a of Inr m \<Rightarrow> m | Inl e \<Rightarrow> 0)"
    by (simp add: max_points_db [OF tm])
  show ?thesis
    unfolding write_term_grade_def grade_term_subject_def graded_assignments_of_db [OF tm sa] m
    by (rule refl)
qed

lemma foldl_write_term_grade_db:
  assumes tm: "assignment_templates d' = assignment_templates d"
    and sa: "student_assignments d' = student_assignments d"
  shows "foldl (write_term_grade now d' t) rows ps = foldl (write_term_grade now d t) rows ps"
  by (induction ps arbitrary: rows) (simp_all add: write_term_grade_db [OF tm sa])

lemma calculate_frame:
  "users (fst (calculate_student_term_grades now tid student_id d)) = users d"
  "assignment_templates (fst (calculate_student_term_grades now tid student_id d)) =
     assignment_templates d"
  "student_assignments (fst (calculate_student_term_grades now tid student_id d)) =
     student_assignments d"
  "terms (fst (calculate_student_term_grades now tid student_id d)) = terms d"
  "term_subjects (fst (calculate_student_term_grades now tid student_id d)) =
     term_subjects (fst (auto_link_subjects_to_terms d (Some tid)))"
  by (simp_all add: calculate_student_term_grades_def Let_def auto_link_frame
      split: option.splits prod.splits)

lemma current_fields_row_view:
  "map row_view rows' = map row_view rows \<Longrightarrow>
   map current_fields rows' = map current_fields rows"
proof -
  assume "map row_view rows' = map row_view rows"
  then have "map (\<lambda>v. snd (snd v)) (map row_view rows') = map (\<lambda>v. snd (snd v)) (map row_view rows)"
    by simp
  then show ?thesis by (simp add: row_view_def comp_def)
qed

lemma calculate_student_term_grades_idempotent:
  assumes pk: "distinct (map ts_id (term_subjects d))"
  shows "map current_fields
           (student_term_grades
              (fst (calculate_student_term_grades now2 tid student_id
                      (fst (calculate_student_term_grades now1 tid student_id d))))) =
         map current_fields
           (student_term_grades (fst (calculate_student_term_grades now1 tid student_id d)))"
proof -
  let ?D = "fst (auto_link_subjects_to_terms d (Some tid))"
  let ?d1 = "fst (calculate_student_term_grades now1 tid student_id d)"
  have again: "fst (auto_link_subjects_to_terms ?d1 (Some tid)) = ?d1"
    by (rule auto_link_again [of ?d1 d]) (simp_all add: calculate_frame)
  have tm: "assignment_templates ?d1 = assignment_templates ?D"
    and sa: "student_assignments ?d1 = student_assignments ?D"
    and te: "terms ?d1 = terms ?D"
    and us: "users ?d1 = users ?D"
    and ts: "term_subjects ?d1 = term_subjects ?D"
    by (simp_all add: calculate_frame auto_link_frame)
  show ?thesis
  proof (cases "find (\<lambda>x. term_id x = tid) (terms ?D)")
    case None
    then show ?thesis
      by (simp add: calculate_student_term_grades_rows [of now2] again te Let_def)
  next
    case (Some t)
    let ?ps = "grading_pairs (service_students ?D student_id)
                 (filter (\<lambda>l. ts_term_id l = tid) (term_subjects ?D))"
    have ps: "grading_pairs (service_students ?d1 student_id)
                 (filter (\<lambda>l. ts_term_id l = tid) (term_subjects ?d1)) = ?ps"
      by (simp add: service_students_def us ts)
    have rows1: "student_term_grades ?d1 =
                   foldl (write_term_grade now1 ?D t) (student_term_grades ?D) ?ps"
      using Some by (simp add: calculate_student_term_grades_rows [of now1] Let_def)
    have rows2: "student_term_grades (fst (calculate_student_term_grades now2 tid student_id ?d1)) =
                   foldl (write_term_grade now2 ?D t) (student_term_grades ?d1) ?ps"
      using Some
      by (simp add: calculate_student_term_grades_rows [of now2] again te ps Let_def
          foldl_write_term_grade_db [OF tm sa])
    have "distinct (map ts_id (term_subjects ?D))"
      using pk by (simp add: auto_link_fst insert_term_subjects_distinct)
    then have "distinct (map ts_id (filter (\<lambda>l. ts_term_id l = tid) (term_subjects ?D)))"
      by (rule distinct_map_filter)
    from grading_pairs_same_target [OF this]
    have "\<forall>p\<in>set ?ps. \<forall>q\<in>set ?ps. same_target p q" .
    from first_pass_establishes [OF this, of ?D t now1 "student_term_grades ?D"]
    have "\<forall>q\<in>set ?ps. established ?D t (student_term_grades ?d1) q"
      by (simp add: rows1)
    from second_pass_same_view [OF this, of now2]
    have "map row_view (foldl (write_term_grade now2 ?D t) (student_term_grades ?d1) ?ps) =
            map row_view (student_term_grades ?d1)" .
    then show ?thesis unfolding rows2 by (rule current_fields_row_view)
  qed
qed

lemma update_term_grade_raises_on_2:
  "map (\<lambda>now. update_term_grade SQLAlchemy_2 now graded_assignment sample_db) [2000, 2001] =
     [Inl ArgumentError, Inl ArgumentError]"
  by (simp add: graded_assignment_def sample_defs model_defs)


subsection \<open>Percentage and letter grade\<close>

text \<open>
  With \<open>0 \<le> points \<le> max_points\<close> and \<open>max_points > 0\<close> the percentage lies between
  \<open>0\<close> and \<open>100\<close>; \<^verbatim>\<open>_calculate_letter_grade\<close> gives every percentage one letter
  of the thirteen, by the thresholds 97, 93, 90, 87, 83, 80, 77, 73, 70, 67, 63, 60; the
  chain of the endpoint agrees with it from 67 up and below 60, and gives F from 60 up to
  65.
\<close>

lemma percentage_in_range:
  assumes "sa_points_earned a = Some p" and "max_points d a = Inr m"
    and "0 < m" and "0 \<le> p" and "p \<le> of_int m"
  shows "\<exists>pct. calculate_percentage_grade d a = Inr (a\<lparr>sa_percentage_grade := Some pct\<rparr>, Some pct)
           \<and> pct = p / of_int m * 100 \<and> 0 \<le> pct \<and> pct \<le> 100"
proof -
  from assms(3) have m: "(0::rat) < of_int m" by simp
  have "0 \<le> p / of_int m * 100" using assms(4) m by simp
  moreover have "p / of_int m * 100 \<le> 100" using assms(5) m by (simp add: divide_le_eq)
  ultimately have "0 \<le> p / of_int m * 100 \<and> p / of_int m * 100 \<le> 100" by blast
  with assms(1-3) show ?thesis by (simp add: calculate_percentage_grade_def)
qed

lemma calculate_letter_grade_total:
  "\<exists>g. calculate_letter_grade (Some pct) = Some g \<and>
        g \<in> set [''A+'', ''A'', ''A-'', ''B+'', ''B'', ''B-'', ''C+'', ''C'', ''C-'',
                  ''D+'', ''D'', ''D-'', ''F'']"
  by (simp add: calculate_letter_grade_def)

lemma calculate_letter_grade_table:
  "calculate_letter_grade (Some pct) =
     Some (if 97 \<le> pct then ''A+'' else if 93 \<le> pct then ''A'' else if 90 \<le> pct then ''A-''
           else if 87 \<le> pct then ''B+'' else if 83 \<le> pct then ''B'' else if 80 \<le> pct then ''B-''
           else if 77 \<le> pct then ''C+'' else if 73 \<le> pct then ''C'' else if 70 \<le> pct then ''C-''
           else if 67 \<le> pct then ''D+'' else if 63 \<le> pct then ''D'' else if 60 \<le> pct then ''D-''
           else ''F'')"
  by (simp add: calculate_letter_grade_def)

lemma letter_grades_agree:
  "67 \<le> pct \<or> pct < 60 \<Longrightarrow>
   calculate_letter_grade (Some pct) = Some (endpoint_letter_grade pct)"
  by (auto simp: calculate_letter_grade_def endpoint_letter_grade_def)

lemma letter_grades_differ:
  "60 \<le> pct \<Longrightarrow> pct < 65 \<Longrightarrow>
   endpoint_letter_grade pct = ''F'' \<and>
   calculate_letter_grade (Some pct) = Some (if 63 \<le> pct then ''D'' else ''D-'')"
  by (auto simp: calculate_letter_grade_def endpoint_letter_grade_def)

text \<open>
  C6, at 61 points of 100 with no letter given: the endpoint stores the percentage
  \<open>61\<close> with the letter F, where the table of the claim, and
  \<^verbatim>\<open>_calculate_letter_grade\<close>, have D-. On the 1.x line of the ORM this is the
  sample store; on the 2.x line, where a request on that store raises in
  \<^verbatim>\<open>update_term_grade\<close>, it is the store without an active term, for either
  endpoint.
\<close>

theorem endpoint_letter_grade_lacks_D_minus:
  "(case snd (grade_student_assignment SQLAlchemy_1 20 2000 1 (grade_data_of 61) sample_admin
               sample_db) of
      Inl e \<Rightarrow> False
    | Inr a \<Rightarrow> sa_percentage_grade a = Some 61 \<and> sa_letter_grade a = Some ''F'') \<and>
   (case snd (grade_student_assignment SQLAlchemy_2 20 2000 1 (grade_data_of 61) sample_admin
               no_active_term_db) of
      Inl e \<Rightarrow> False
    | Inr a \<Rightarrow> sa_percentage_grade a = Some 61 \<and> sa_letter_grade a = Some ''F'') \<and>
   (case snd (grade_assignment_via_api SQLAlchemy_2 20 2000 1 (grade_data_of 61) True
               no_active_term_db) of
      Inl e \<Rightarrow> False
    | Inr a \<Rightarrow> sa_percentage_grade a = Some 61 \<and> sa_letter_grade a = Some ''F'') \<and>
   calculate_letter_grade (Some 61) = Some ''D-''"
  by (simp add: sample_defs model_defs calculate_letter_grade_def)

subsection \<open>Term-grade recalculation: the totals\<close>

text \<open>
  When the assignment is already stored as graded, lies within the active term, and no
  ungraded row of the scope carries points, \<^verbatim>\<open>update_term_grade\<close> on the 1.x line of
  the ORM writes the sums the specification words.
\<close>

lemma sql_sum_Some:
  "\<exists>v\<in>set vs. v \<noteq> None \<Longrightarrow>
   sql_sum vs = Some (sum_list (map (\<lambda>v. case v of None \<Rightarrow> 0 | Some x \<Rightarrow> x) vs))"
proof -
  have c: "sum_list (concat (map (\<lambda>v. case v of None \<Rightarrow> [] | Some x \<Rightarrow> [x]) vs)) =
        sum_list (map (\<lambda>v. case v of None \<Rightarrow> 0 | Some x \<Rightarrow> x) vs)" for vs :: "rat option list"
    by (induction vs) (auto split: option.splits)
  assume "\<exists>v\<in>set vs. v \<noteq> None"
  then have "concat (map (\<lambda>v. case v of None \<Rightarrow> [] | Some x \<Rightarrow> [x]) vs) \<noteq> []"
    by (induction vs) (auto split: option.splits)
  then show ?thesis by (simp add: sql_sum_def Let_def c)
qed

lemma sum_list_filter_zero:
  "\<forall>r\<in>set rows. \<not> P r \<longrightarrow> f r = (0::rat) \<Longrightarrow>
   sum_list (map f (filter P rows)) = sum_list (map f rows)"
  by (induction rows) auto

lemma term_grade_totals_when_flushed:
  assumes graded: "sa_is_graded self" and pts: "sa_points_earned self = Some p" and nz: "p \<noteq> 0"
    and active: "find term_is_active (terms d) = Some t"
    and tmpl: "template_of d self = Some tm"
    and link: "find (\<lambda>ts. ts_term_id ts = term_id t \<and> ts_subject_id ts = tmpl_subject_id tm)
                 (term_subjects d) = Some l"
    and stored: "self \<in> set (term_scope d (sa_student_id self) (tmpl_subject_id tm) t)"
    and inv: "\<forall>r\<in>set (term_scope d (sa_student_id self) (tmpl_subject_id tm) t).
                sa_points_earned r \<noteq> None \<longrightarrow> sa_is_graded r"
  shows "\<exists>d' g. update_term_grade SQLAlchemy_1 now self d = Inr d'
           \<and> find (\<lambda>r. stg_student_id r = sa_student_id self \<and> stg_term_subject_id r = ts_id l)
                (student_term_grades d') = Some g
           \<and> current_points_earned g =
               Some (spec_points_earned d (sa_student_id self) (tmpl_subject_id tm) t)
           \<and> current_points_possible g =
               Some (of_int (spec_points_possible d (sa_student_id self) (tmpl_subject_id tm) t))"
proof -
  let ?rows = "term_scope d (sa_student_id self) (tmpl_subject_id tm) t"
  let ?f = "\<lambda>r. case sa_points_earned r of None \<Rightarrow> (0::rat) | Some x \<Rightarrow> x"
  let ?x = "term_grade_row (student_term_grades d) (sa_student_id self) (ts_id l)"
  let ?g = "recalculated now d (sa_student_id self) (tmpl_subject_id tm) t ?x"
  have "\<exists>v\<in>set (map sa_points_earned ?rows). v \<noteq> None"
    using stored pts by force
  from sql_sum_Some [OF this]
  have s: "sql_sum (map sa_points_earned ?rows) = Some (sum_list (map ?f ?rows))"
    by (simp add: comp_def)
  have "\<forall>r\<in>set ?rows. \<not> sa_is_graded r \<longrightarrow> ?f r = 0"
    using inv by (auto split: option.splits)
  from sum_list_filter_zero [OF this]
  have e: "sum_list (map ?f ?rows) = spec_points_earned d (sa_student_id self) (tmpl_subject_id tm) t"
    by (simp add: spec_points_earned_def)
  have c: "sum_list (map (coalesce_max_points d) (filter sa_is_graded ?rows)) =
           spec_points_possible d (sa_student_id self) (tmpl_subject_id tm) t"
    by (simp add: spec_points_possible_def coalesce_max_points_def [abs_def])
  have k: "stg_student_id ?g = sa_student_id self" "stg_term_subject_id ?g = ts_id l"
    by (simp_all add: recalculated_key term_grade_row_key)
  have "current_points_earned ?g =
          Some (spec_points_earned d (sa_student_id self) (tmpl_subject_id tm) t)"
    "current_points_possible ?g =
          Some (of_int (spec_points_possible d (sa_student_id self) (tmpl_subject_id tm) t))"
    by (simp_all add: recalculated_def Let_def s e c)
  with find_store_term_grade [OF k, of "student_term_grades d"] graded pts nz active tmpl link
  show ?thesis by (simp add: update_term_grade_unfold)
qed

text \<open>
  C3, at the first grading of the only assignment of a term (85 of 100). On the 1.x line
  of the ORM the assignment is stored as graded with 85 points, the sums of the claim over
  the stored rows are 85 and 100, and the term-grade row holds the totals \<open>0\<close> and
  \<open>0\<close>, since the aggregate queries ran before the grade was flushed; grading it
  again with 90 writes the totals 85 and 100, where the sum of the claim is 90. On the
  2.x line the request raises in \<^verbatim>\<open>update_term_grade\<close> and leaves the store as it
  was: no grade and no totals are written.
\<close>

theorem term_grade_misses_pending_grade:
  "map (\<lambda>g. (current_points_earned g, current_points_possible g))
     (student_term_grades (apply_grading SQLAlchemy_1 sample_db (grade_request 85)))
     = [(Some 0, Some 0)] \<and>
   map (\<lambda>a. (sa_points_earned a, sa_is_graded a))
     (student_assignments (apply_grading SQLAlchemy_1 sample_db (grade_request 85)))
     = [(Some 85, True)] \<and>
   spec_points_earned (apply_grading SQLAlchemy_1 sample_db (grade_request 85)) 2 1 sample_term
     = 85 \<and>
   spec_points_possible (apply_grading SQLAlchemy_1 sample_db (grade_request 85)) 2 1 sample_term
     = 100 \<and>
   map (\<lambda>g. (current_points_earned g, current_points_possible g))
     (student_term_grades
        (apply_gradings SQLAlchemy_1 sample_db [grade_request 85, grade_request 90]))
     = [(Some 85, Some 100)] \<and>
   spec_points_earned (apply_gradings SQLAlchemy_1 sample_db [grade_request 85, grade_request 90])
     2 1 sample_term = 90 \<and>
   grade_student_assignment SQLAlchemy_2 20 2000 1 (grade_data_of 85) sample_admin sample_db =
     (sample_db, Inl ArgumentError) \<and>
   apply_grading SQLAlchemy_2 sample_db (grade_request 85) = sample_db"
  by (simp add: sample_defs model_defs spec_points_earned_def spec_points_possible_def
      apply_gradings_def)

end
